theory Spec2Isabelle
  imports Main "HOL-Library.Char_ord" "HOL-Library.List_Lexorder" "HOL-Library.Product_Lexorder"
begin

section \<open>Values, exceptions, requests and responses\<close>

text \<open>
  The handlers of \<^verbatim>\<open>app.py\<close> move three kinds of data: the documents that
  \<^verbatim>\<open>collection.aggregate\<close> returns (Python dicts), the aggregation pipelines they
  pass to it (lists of dicts), and the values they hand to \<^verbatim>\<open>jsonify\<close>. All three
  are Python values built from \<^verbatim>\<open>None\<close>, booleans, integers, strings, lists and
  dicts. A dict is an association list, in insertion order, read with \<open>map_of\<close>.
  Numbers are Python's unbounded integers (floating-point revenues are outside the model).
  A string is a list of 8-bit characters, read as the code points below 256.
\<close>

datatype val =
    VNone
  | VBool bool
  | VInt int
  | VStr string
  | VList "val list"
  | VDict "(string \<times> val) list"

type_synonym doc = "(string \<times> val) list"

text \<open>
  The exceptions a handler body can meet: a missing key in \<^verbatim>\<open>item['_id']\<close>, and any
  error the driver raises from a store call, carrying its message. \<open>exn_str\<close> is
  \<^verbatim>\<open>str(e)\<close>: for a \<^verbatim>\<open>KeyError\<close> the key in single quotes.
\<close>

datatype exn = KeyError string | PyMongoError string

fun exn_str :: "exn \<Rightarrow> string" where
  "exn_str (KeyError k) = [CHR 0x27] @ k @ [CHR 0x27]"
| "exn_str (PyMongoError m) = m"

record request =
  args :: "(string \<times> string) list"

record response =
  body :: val
  status :: int

text \<open>\<^verbatim>\<open>jsonify(x)\<close> alone is a 200 response; \<^verbatim>\<open>jsonify(x), n\<close> has status \<open>n\<close>.\<close>

definition jsonify :: "val \<Rightarrow> response" where
  "jsonify v = \<lparr>body = v, status = 200\<rparr>"

definition jsonify_status :: "val \<Rightarrow> int \<Rightarrow> response" where
  "jsonify_status v n = \<lparr>body = v, status = n\<rparr>"

subsection \<open>Query-string access\<close>

text \<open>
  \<^verbatim>\<open>request.args.get(key, default=d, type=t)\<close> takes the first value of the key,
  returns the default when the key is absent, and returns the default when the
  conversion \<open>t\<close> raises \<^verbatim>\<open>ValueError\<close>. With \<^verbatim>\<open>type=str\<close> the conversion never
  fails. With \<^verbatim>\<open>type=int\<close> it is Python's \<^verbatim>\<open>int(s)\<close>: surrounding whitespace is
  stripped, then an optional sign and decimal digits, where single underscores may
  separate digits. The whitespace of \<^verbatim>\<open>int\<close> is the space, the characters 0x09 to
  0x0D, and 0x85 and 0xA0; the separators 0x1C to 0x1F, which \<^verbatim>\<open>str.strip\<close> removes,
  are not among them, and \<^verbatim>\<open>int\<close> raises on them. A string of more than 4300
  digits is refused (the interpreter's default limit for the conversion). The digits
  are the ASCII digits: the other decimal digits that Python accepts lie outside the
  8-bit characters of the model.
\<close>

definition max_str_digits :: nat where
  "max_str_digits = 4300"

definition is_space :: "char \<Rightarrow> bool" where
  "is_space c = (c \<in> set [CHR 0x20, CHR 0x09, CHR 0x0A, CHR 0x0B, CHR 0x0C, CHR 0x0D,
                          CHR 0x85, CHR 0xA0])"

definition strip :: "string \<Rightarrow> string" where
  "strip s = rev (dropWhile is_space (rev (dropWhile is_space s)))"

definition digit_val :: "char \<Rightarrow> nat option" where
  "digit_val c =
     (let n = of_char c :: nat in if 48 \<le> n \<and> n \<le> 57 then Some (n - 48) else None)"

fun py_nat_acc :: "nat \<Rightarrow> string \<Rightarrow> nat option" where
  "py_nat_acc a [] = Some a"
| "py_nat_acc a (c # cs) =
     (if c = CHR ''_''
      then (case cs of
              [] \<Rightarrow> None
            | d # _ \<Rightarrow> if digit_val d = None then None else py_nat_acc a cs)
      else (case digit_val c of
              None \<Rightarrow> None
            | Some d \<Rightarrow> py_nat_acc (10 * a + d) cs))"

definition py_nat :: "string \<Rightarrow> nat option" where
  "py_nat s =
     (case s of
        [] \<Rightarrow> None
      | c # _ \<Rightarrow>
          if digit_val c = None then None
          else if max_str_digits < length (filter (\<lambda>c. c \<noteq> CHR ''_'') s) then None
          else py_nat_acc 0 s)"

definition py_int :: "string \<Rightarrow> int option" where
  "py_int s =
     (case strip s of
        [] \<Rightarrow> None
      | c # cs \<Rightarrow>
          if c = CHR ''-'' then map_option (\<lambda>n. - int n) (py_nat cs)
          else if c = CHR ''+'' then map_option int (py_nat cs)
          else map_option int (py_nat (c # cs)))"

definition args_get_str :: "request \<Rightarrow> string \<Rightarrow> string \<Rightarrow> string" where
  "args_get_str req key dflt =
     (case map_of (args req) key of None \<Rightarrow> dflt | Some v \<Rightarrow> v)"

definition args_get_int :: "request \<Rightarrow> string \<Rightarrow> int \<Rightarrow> int" where
  "args_get_int req key dflt =
     (case map_of (args req) key of
        None \<Rightarrow> dflt
      | Some v \<Rightarrow> (case py_int v of None \<Rightarrow> dflt | Some n \<Rightarrow> n))"

section \<open>The document store as the handlers use it\<close>

text \<open>
  A pipeline is the list of stage dicts the handler writes; each constructor is one of
  the stage dicts of \<^verbatim>\<open>app.py\<close>, with its arguments as written there:
  \<^verbatim>\<open>{'$unwind': '$genres'}\<close> is \<open>Unwind ''$genres''\<close>,
  \<^verbatim>\<open>{'$match': {'crew.job': 'Director'}}\<close> is \<open>Match [(''crew.job'', Eq (VStr ''Director''))]\<close>,
  \<^verbatim>\<open>{'$regex': q, '$options': 'i'}\<close> is \<open>Regex q ''i''\<close>,
  \<^verbatim>\<open>{'$group': {'_id': e, 'f': {'$sum': x}}}\<close> is \<open>Group e [(''f'', Sum_of x)]\<close>,
  \<^verbatim>\<open>{'$sort': {'f': d}}\<close> is \<open>Sort ''f'' d\<close>.
\<close>

datatype cond = Eq val | Regex string string

type_synonym query = "(string \<times> cond) list"

datatype accum = Sum_of val

datatype stage =
    Unwind string
  | Match query
  | Group val "(string \<times> accum) list"
  | Sort string int
  | Limit int
  | Count string

text \<open>
  The global \<^verbatim>\<open>collection\<close> is the handlers' only collaborator. They call two of its
  methods, \<^verbatim>\<open>aggregate\<close> and \<^verbatim>\<open>count_documents\<close>. Each call may raise, and each call
  acts on the state of the database, so a store is a pair of state transformers over
  a database state \<open>'db\<close> that return an exception or a result.
\<close>

record 'db store =
  aggregate :: "stage list \<Rightarrow> 'db \<Rightarrow> (exn + doc list) \<times> 'db"
  count_documents :: "query \<Rightarrow> 'db \<Rightarrow> (exn + int) \<times> 'db"

section \<open>The handlers\<close>

text \<open>
  Each handler is \<^verbatim>\<open>try: body except Exception as e: return jsonify({"error": str(e)}), 500\<close>.
  The body is a function \<open>*_try\<close> that returns an exception or a response, together with
  the database state it leaves; \<open>except_500\<close> is the \<^verbatim>\<open>except\<close> clause.
\<close>

definition except_500 :: "(exn + response) \<times> 'db \<Rightarrow> response \<times> 'db" where
  "except_500 r =
     (case r of
        (Inl e, db) \<Rightarrow> (jsonify_status (VDict [(''error'', VStr (exn_str e))]) 500, db)
      | (Inr resp, db) \<Rightarrow> (resp, db))"

definition getitem :: "doc \<Rightarrow> string \<Rightarrow> exn + val" where
  "getitem d k = (case map_of d k of None \<Rightarrow> Inl (KeyError k) | Some v \<Rightarrow> Inr v)"

text \<open>A list comprehension whose element expression may raise stops at the first exception.\<close>

fun map_exn :: "('a \<Rightarrow> exn + 'b) \<Rightarrow> 'a list \<Rightarrow> exn + 'b list" where
  "map_exn f [] = Inr []"
| "map_exn f (x # xs) =
     (case f x of
        Inl e \<Rightarrow> Inl e
      | Inr y \<Rightarrow> (case map_exn f xs of Inl e \<Rightarrow> Inl e | Inr ys \<Rightarrow> Inr (y # ys)))"

text \<open>\<^verbatim>\<open>{'nombre': item['_id'], 'conteo': item['conteo']}\<close>\<close>

definition genre_row :: "doc \<Rightarrow> exn + val" where
  "genre_row item =
     (case getitem item ''_id'' of
        Inl e \<Rightarrow> Inl e
      | Inr i \<Rightarrow>
          (case getitem item ''conteo'' of
             Inl e \<Rightarrow> Inl e
           | Inr c \<Rightarrow> Inr (VDict [(''nombre'', i), (''conteo'', c)])))"

text \<open>\<^verbatim>\<open>{'director': item['_id'], 'ingresos_totales': item['ingresos_totales']}\<close>\<close>

definition director_row :: "doc \<Rightarrow> exn + val" where
  "director_row item =
     (case getitem item ''_id'' of
        Inl e \<Rightarrow> Inl e
      | Inr i \<Rightarrow>
          (case getitem item ''ingresos_totales'' of
             Inl e \<Rightarrow> Inl e
           | Inr t \<Rightarrow> Inr (VDict [(''director'', i), (''ingresos_totales'', t)])))"

subsection \<open>\<^verbatim>\<open>index\<close>\<close>

definition index :: "'db store \<Rightarrow> request \<Rightarrow> 'db \<Rightarrow> response \<times> 'db" where
  "index st req db =
     (jsonify (VDict [(''status'', VStr ''API corriendo''), (''db_conectada'', VBool True)]), db)"

subsection \<open>Parameters of the two reports\<close>

text \<open>\<^verbatim>\<open>sort_direction = -1 if sort_order == 'desc' else 1\<close>, after the default \<^verbatim>\<open>'desc'\<close>.\<close>

definition sort_direction :: "request \<Rightarrow> int" where
  "sort_direction req =
     (let sort_order = args_get_str req ''sort'' ''desc''
      in if sort_order = ''desc'' then - 1 else 1)"

text \<open>\<^verbatim>\<open>limit = max(1, min(limit, 50))\<close> after the default 10; 30 and 5 for the directors.\<close>

definition genres_limit :: "request \<Rightarrow> int" where
  "genres_limit req = (let limit = args_get_int req ''limit'' 10 in max 1 (min limit 50))"

definition directors_limit :: "request \<Rightarrow> int" where
  "directors_limit req = (let limit = args_get_int req ''limit'' 5 in max 1 (min limit 30))"

subsection \<open>\<^verbatim>\<open>get_top_genres\<close>\<close>

definition top_genres_pipeline :: "int \<Rightarrow> int \<Rightarrow> stage list" where
  "top_genres_pipeline limit dir =
     [Unwind ''$genres'',
      Group (VStr ''$genres.name'') [(''conteo'', Sum_of (VInt 1))],
      Sort ''conteo'' dir,
      Limit limit]"

definition get_top_genres_try :: "'db store \<Rightarrow> request \<Rightarrow> 'db \<Rightarrow> (exn + response) \<times> 'db" where
  "get_top_genres_try st req db =
     (let limit = genres_limit req;
          dir = sort_direction req;
          pipeline = top_genres_pipeline limit dir
      in case aggregate st pipeline db of
           (Inl e, db') \<Rightarrow> (Inl e, db')
         | (Inr data, db') \<Rightarrow>
             (case map_exn genre_row data of
                Inl e \<Rightarrow> (Inl e, db')
              | Inr formatted_data \<Rightarrow> (Inr (jsonify (VList formatted_data)), db')))"

definition get_top_genres :: "'db store \<Rightarrow> request \<Rightarrow> 'db \<Rightarrow> response \<times> 'db" where
  "get_top_genres st req db = except_500 (get_top_genres_try st req db)"

subsection \<open>\<^verbatim>\<open>get_top_directors_revenue\<close>\<close>

definition top_directors_pipeline :: "int \<Rightarrow> int \<Rightarrow> stage list" where
  "top_directors_pipeline limit dir =
     [Unwind ''$crew'',
      Match [(''crew.job'', Eq (VStr ''Director''))],
      Group (VStr ''$crew.name'') [(''ingresos_totales'', Sum_of (VStr ''$revenue''))],
      Sort ''ingresos_totales'' dir,
      Limit limit]"

definition get_top_directors_revenue_try ::
  "'db store \<Rightarrow> request \<Rightarrow> 'db \<Rightarrow> (exn + response) \<times> 'db" where
  "get_top_directors_revenue_try st req db =
     (let limit = directors_limit req;
          dir = sort_direction req;
          pipeline = top_directors_pipeline limit dir
      in case aggregate st pipeline db of
           (Inl e, db') \<Rightarrow> (Inl e, db')
         | (Inr data, db') \<Rightarrow>
             (case map_exn director_row data of
                Inl e \<Rightarrow> (Inl e, db')
              | Inr formatted_data \<Rightarrow> (Inr (jsonify (VList formatted_data)), db')))"

definition get_top_directors_revenue :: "'db store \<Rightarrow> request \<Rightarrow> 'db \<Rightarrow> response \<times> 'db" where
  "get_top_directors_revenue st req db = except_500 (get_top_directors_revenue_try st req db)"

subsection \<open>\<^verbatim>\<open>search\<close>\<close>

definition q_required :: string where
  "q_required = ''Par'' @ [CHR 0xE1] @ ''metro 'q' requerido''"

definition genre_search_pipeline :: "string \<Rightarrow> stage list" where
  "genre_search_pipeline q =
     [Unwind ''$genres'',
      Match [(''genres.name'', Regex q ''i'')],
      Group (VStr ''$genres.name'') [(''conteo'', Sum_of (VInt 1))],
      Sort ''conteo'' (- 1),
      Limit 10]"

definition director_search_pipeline :: "string \<Rightarrow> stage list" where
  "director_search_pipeline q =
     [Unwind ''$crew'',
      Match [(''crew.job'', Eq (VStr ''Director'')), (''crew.name'', Regex q ''i'')],
      Group (VStr ''$crew.name'') [(''ingresos_totales'', Sum_of (VStr ''$revenue''))],
      Sort ''ingresos_totales'' (- 1),
      Limit 10]"

definition search_try :: "'db store \<Rightarrow> request \<Rightarrow> 'db \<Rightarrow> (exn + response) \<times> 'db" where
  "search_try st req db =
     (let q = args_get_str req ''q'' ''''
      in if q = ''''
         then (Inr (jsonify_status (VDict [(''error'', VStr q_required)]) 400), db)
         else
           (case aggregate st (genre_search_pipeline q) db of
              (Inl e, db1) \<Rightarrow> (Inl e, db1)
            | (Inr genres, db1) \<Rightarrow>
                (case aggregate st (director_search_pipeline q) db1 of
                   (Inl e, db2) \<Rightarrow> (Inl e, db2)
                 | (Inr directors, db2) \<Rightarrow>
                     (case map_exn genre_row genres of
                        Inl e \<Rightarrow> (Inl e, db2)
                      | Inr gs \<Rightarrow>
                          (case map_exn director_row directors of
                             Inl e \<Rightarrow> (Inl e, db2)
                           | Inr ds \<Rightarrow>
                               (Inr (jsonify (VDict [(''genres'', VList gs),
                                                     (''directors'', VList ds)])), db2))))))"

definition search :: "'db store \<Rightarrow> request \<Rightarrow> 'db \<Rightarrow> response \<times> 'db" where
  "search st req db = except_500 (search_try st req db)"

subsection \<open>\<^verbatim>\<open>get_stats\<close>\<close>

definition stats_genre_pipeline :: "stage list" where
  "stats_genre_pipeline =
     [Unwind ''$genres'', Group (VStr ''$genres.name'') [], Count ''total'']"

definition stats_director_pipeline :: "stage list" where
  "stats_director_pipeline =
     [Unwind ''$crew'',
      Match [(''crew.job'', Eq (VStr ''Director''))],
      Group (VStr ''$crew.name'') [(''ingresos_totales'', Sum_of (VStr ''$revenue''))],
      Sort ''ingresos_totales'' (- 1),
      Limit 1]"

text \<open>
  \<^verbatim>\<open>total_genres = genre_result[0]['total'] if genre_result else 0\<close> is evaluated before
  the third store call, so a missing key there ends the body before that call.
\<close>

definition get_stats_try :: "'db store \<Rightarrow> request \<Rightarrow> 'db \<Rightarrow> (exn + response) \<times> 'db" where
  "get_stats_try st req db =
     (case count_documents st [] db of
        (Inl e, db1) \<Rightarrow> (Inl e, db1)
      | (Inr total_movies, db1) \<Rightarrow>
          (case aggregate st stats_genre_pipeline db1 of
             (Inl e, db2) \<Rightarrow> (Inl e, db2)
           | (Inr genre_result, db2) \<Rightarrow>
               (case (case genre_result of [] \<Rightarrow> Inr (VInt 0) | d # _ \<Rightarrow> getitem d ''total'') of
                  Inl e \<Rightarrow> (Inl e, db2)
                | Inr total_genres \<Rightarrow>
                    (case aggregate st stats_director_pipeline db2 of
                       (Inl e, db3) \<Rightarrow> (Inl e, db3)
                     | (Inr top_director, db3) \<Rightarrow>
                         (Inr (jsonify (VDict
                            [(''total_movies'', VInt total_movies),
                             (''total_genres'', total_genres),
                             (''top_director'',
                                (case top_director of [] \<Rightarrow> VNone | d # _ \<Rightarrow> VDict d))])),
                          db3)))))"

definition get_stats :: "'db store \<Rightarrow> request \<Rightarrow> 'db \<Rightarrow> response \<times> 'db" where
  "get_stats st req db = except_500 (get_stats_try st req db)"

section \<open>A model of the document store\<close>

text \<open>
  The aggregation engine is MongoDB's, not code of this repository. The handlers are
  verified against any store (the record above); the claims about what a report
  contains need the meaning of the stages, which this section gives for the pipeline
  language above, following the engine's documented behaviour:
  \<^item> \<open>$unwind\<close> of a field replaces a document by one copy per element of the array
    in that field, and drops a document whose field is missing, null or an empty
    array; a field holding a value that is not an array is kept as it is;
  \<^item> \<open>$match\<close> keeps the documents that satisfy every condition; a regular expression
    that the engine rejects fails the whole command;
  \<^item> \<open>$group\<close> outputs one document per distinct value of the key expression, with
    \<open>$sum\<close> adding the integer values of its operand and ignoring other values;
  \<^item> \<open>$sort\<close> accepts the directions 1 and -1 only; \<open>$limit\<close> accepts positive limits only;
  \<^item> \<open>$count\<close> outputs one document with the number of input documents, and none
    when there is no input.

  Where the engine leaves the order open (the order of groups, the order of rows with
  equal sort keys) the model fixes one: groups in order of first occurrence, a stable
  ascending sort, and its reversal for a descending one. A path is followed through
  embedded documents only; a path that meets an array inside \<open>$match\<close>, \<open>$group\<close> or
  \<open>$sort\<close> is outside the model and reads as missing. Values of different types sort
  by type (null, numbers, strings, documents, arrays, booleans); documents and arrays
  are not compared further.
\<close>

subsection \<open>Regular expressions\<close>

text \<open>
  \<open>$regex\<close> patterns are Perl-compatible regular expressions, searched for anywhere in
  the string. The model covers the fragment built from literal characters, \<open>.\<close>
  (any character but a newline), grouping parentheses, \<open>|\<close>, the postfix operators
  \<open>*\<close>, \<open>+\<close>, \<open>?\<close> and a backslash before a character that is not a letter or digit.
  A pattern of this fragment that the engine rejects is \<open>Rx_invalid\<close>; a pattern that
  uses anything else (classes, anchors, braces, escapes of letters, special groups,
  a second operator after a postfix operator, characters beyond ASCII) is
  \<open>Rx_unsupported\<close>: it lies outside the fragment, and what the engine does with it
  is not decided here (see \<open>regex_engine\<close> below). Case-insensitive matching folds the
  ASCII letters.
\<close>

datatype rexp = RFail | REps | RChr char | RDot | RSeq rexp rexp | RAlt rexp rexp | RStar rexp

datatype rx_result = Rx rexp | Rx_invalid string | Rx_unsupported

definition lower :: "char \<Rightarrow> char" where
  "lower c =
     (let n = of_char c :: nat in if 65 \<le> n \<and> n \<le> 90 then char_of (n + 32) else c)"

definition is_alnum :: "char \<Rightarrow> bool" where
  "is_alnum c =
     (let n = of_char c :: nat
      in (48 \<le> n \<and> n \<le> 57) \<or> (65 \<le> n \<and> n \<le> 90) \<or> (97 \<le> n \<and> n \<le> 122))"

fun nullable :: "rexp \<Rightarrow> bool" where
  "nullable RFail = False"
| "nullable REps = True"
| "nullable (RChr c) = False"
| "nullable RDot = False"
| "nullable (RSeq r s) = (nullable r \<and> nullable s)"
| "nullable (RAlt r s) = (nullable r \<or> nullable s)"
| "nullable (RStar r) = True"

text \<open>The derivative of a pattern by a character: what remains to match after reading it.\<close>

fun deriv :: "bool \<Rightarrow> char \<Rightarrow> rexp \<Rightarrow> rexp" where
  "deriv i c RFail = RFail"
| "deriv i c REps = RFail"
| "deriv i c (RChr d) = (if (if i then lower c = lower d else c = d) then REps else RFail)"
| "deriv i c RDot = (if c = CHR 0x0A then RFail else REps)"
| "deriv i c (RSeq r s) =
     (if nullable r then RAlt (RSeq (deriv i c r) s) (deriv i c s) else RSeq (deriv i c r) s)"
| "deriv i c (RAlt r s) = RAlt (deriv i c r) (deriv i c s)"
| "deriv i c (RStar r) = RSeq (deriv i c r) (RStar r)"

fun match_prefix :: "bool \<Rightarrow> rexp \<Rightarrow> string \<Rightarrow> bool" where
  "match_prefix i r [] = nullable r"
| "match_prefix i r (c # cs) = (nullable r \<or> match_prefix i (deriv i c r) cs)"

fun regex_find :: "bool \<Rightarrow> rexp \<Rightarrow> string \<Rightarrow> bool" where
  "regex_find i r [] = nullable r"
| "regex_find i r (c # cs) = (match_prefix i r (c # cs) \<or> regex_find i r cs)"

fun seq_of :: "rexp list \<Rightarrow> rexp" where
  "seq_of rs = fold (\<lambda>r acc. RSeq r acc) rs REps"

fun alts_of :: "rexp list \<Rightarrow> rexp" where
  "alts_of [] = RFail"
| "alts_of [r] = r"
| "alts_of (r # rs) = RAlt r (alts_of rs)"

definition quant :: "char \<Rightarrow> rexp \<Rightarrow> rexp" where
  "quant c r =
     (if c = CHR ''*'' then RStar r
      else if c = CHR ''+'' then RSeq r (RStar r)
      else RAlt r REps)"

text \<open>
  The parser reads the pattern once, left to right. \<open>stk\<close> holds, for each open
  parenthesis, the alternatives and the sequence that were being read when it opened;
  \<open>alts\<close> the finished alternatives of the current group and \<open>cur\<close> the items of the
  current alternative, both latest first; \<open>qf\<close> says that the latest item already
  carries a postfix operator.
\<close>

fun rx_parse ::
  "(rexp list \<times> rexp list) list \<Rightarrow> rexp list \<Rightarrow> rexp list \<Rightarrow> bool \<Rightarrow> string \<Rightarrow> rx_result" where
  "rx_parse stk alts cur qf [] =
     (if stk = [] then Rx (alts_of (rev (seq_of cur # alts)))
      else Rx_invalid ''missing closing parenthesis'')"
| "rx_parse stk alts cur qf (c # cs) =
     (if c = CHR ''('' then
        (if cs \<noteq> [] \<and> (hd cs = CHR ''?'' \<or> hd cs = CHR ''*'') then Rx_unsupported
         else rx_parse ((alts, cur) # stk) [] [] False cs)
      else if c = CHR '')'' then
        (case stk of
           [] \<Rightarrow> Rx_invalid ''unmatched closing parenthesis''
         | (a, s) # stk' \<Rightarrow> rx_parse stk' a (alts_of (rev (seq_of cur # alts)) # s) False cs)
      else if c = CHR ''|'' then rx_parse stk (seq_of cur # alts) [] False cs
      else if c = CHR ''*'' \<or> c = CHR ''+'' \<or> c = CHR ''?'' then
        (if qf then Rx_unsupported
         else (case cur of
                 [] \<Rightarrow> Rx_invalid ''quantifier does not follow a repeatable item''
               | r # rs \<Rightarrow> rx_parse stk alts (quant c r # rs) True cs))
      else if c = CHR ''.'' then rx_parse stk alts (RDot # cur) False cs
      else if c = CHR 0x5C then
        (case cs of
           [] \<Rightarrow> Rx_invalid ''backslash at end of pattern''
         | d # ds \<Rightarrow>
             if is_alnum d \<or> 128 \<le> (of_char d :: nat) then Rx_unsupported
             else rx_parse stk alts (RChr d # cur) False ds)
      else if c \<in> set ''[]{}^$'' \<or> 128 \<le> (of_char c :: nat) then Rx_unsupported
      else rx_parse stk alts (RChr c # cur) False cs)"

definition regex_compile :: "string \<Rightarrow> rx_result" where
  "regex_compile p = rx_parse [] [] [] False p"

text \<open>
  What the engine makes of a pattern and its options: it rejects the pattern with a
  message, or it accepts it, and then the pattern decides for every string whether it
  is found in it. For a pattern of the fragment, with the options \<open>i\<close> or none, this
  is given by the parser and the matcher above. For every other pattern and for other
  options it is whatever the engine's expression library does, which the model takes
  as a parameter \<open>lib\<close>: the properties proved for \<open>mongo lib\<close> hold for every library.
\<close>

datatype rx_compiled = Rx_rejected string | Rx_matcher "string \<Rightarrow> bool"

type_synonym rx_library = "string \<Rightarrow> string \<Rightarrow> rx_compiled"

definition regex_engine :: "rx_library \<Rightarrow> string \<Rightarrow> string \<Rightarrow> rx_compiled" where
  "regex_engine lib p opts =
     (if opts = ''i'' \<or> opts = ''''
      then (case regex_compile p of
              Rx r \<Rightarrow> Rx_matcher (regex_find (opts = ''i'') r)
            | Rx_invalid m \<Rightarrow> Rx_rejected m
            | Rx_unsupported \<Rightarrow> lib p opts)
      else lib p opts)"

subsection \<open>Paths and expressions\<close>

fun split_dot :: "string \<Rightarrow> string \<Rightarrow> string list" where
  "split_dot acc [] = [rev acc]"
| "split_dot acc (c # cs) =
     (if c = CHR ''.'' then rev acc # split_dot [] cs else split_dot (c # acc) cs)"

definition field_path :: "string \<Rightarrow> string list" where
  "field_path s = split_dot [] s"

fun get_path :: "string list \<Rightarrow> val \<Rightarrow> val option" where
  "get_path [] v = Some v"
| "get_path (k # ks) (VDict d) =
     (case map_of d k of None \<Rightarrow> None | Some v \<Rightarrow> get_path ks v)"
| "get_path (k # ks) v = None"

definition field_val :: "string \<Rightarrow> doc \<Rightarrow> val option" where
  "field_val f d = get_path (field_path f) (VDict d)"

text \<open>An expression is a field reference \<open>'$path'\<close> (a missing field reads as null) or a literal.\<close>

fun eval_expr :: "val \<Rightarrow> doc \<Rightarrow> val" where
  "eval_expr (VStr (c # p)) d =
     (if c = CHR ''$''
      then (case field_val p d of None \<Rightarrow> VNone | Some v \<Rightarrow> v)
      else VStr (c # p))"
| "eval_expr e d = e"

subsection \<open>Stages\<close>

definition dict_set :: "doc \<Rightarrow> string \<Rightarrow> val \<Rightarrow> doc" where
  "dict_set d f x = map (\<lambda>(k, v). if k = f then (k, x) else (k, v)) d"

fun unwind_val :: "doc \<Rightarrow> string \<Rightarrow> val option \<Rightarrow> doc list" where
  "unwind_val d f None = []"
| "unwind_val d f (Some VNone) = []"
| "unwind_val d f (Some (VList xs)) = map (dict_set d f) xs"
| "unwind_val d f (Some v) = [d]"

definition unwind_doc :: "string \<Rightarrow> doc \<Rightarrow> doc list" where
  "unwind_doc f d = unwind_val d f (map_of d f)"

fun cond_error :: "rx_library \<Rightarrow> cond \<Rightarrow> exn option" where
  "cond_error lib (Eq v) = None"
| "cond_error lib (Regex p opts) =
     (case regex_engine lib p opts of
        Rx_rejected m \<Rightarrow> Some (PyMongoError (''Regular expression is invalid: '' @ m))
      | Rx_matcher f \<Rightarrow> None)"

fun query_error :: "rx_library \<Rightarrow> query \<Rightarrow> exn option" where
  "query_error lib [] = None"
| "query_error lib ((f, c) # q) =
     (case cond_error lib c of Some e \<Rightarrow> Some e | None \<Rightarrow> query_error lib q)"

fun cond_holds :: "rx_library \<Rightarrow> cond \<Rightarrow> val option \<Rightarrow> bool" where
  "cond_holds lib (Eq v) x = (x = Some v \<or> (x = None \<and> v = VNone))"
| "cond_holds lib (Regex p opts) (Some (VStr s)) =
     (case regex_engine lib p opts of Rx_matcher f \<Rightarrow> f s | Rx_rejected m \<Rightarrow> False)"
| "cond_holds lib (Regex p opts) x = False"

definition query_holds :: "rx_library \<Rightarrow> query \<Rightarrow> doc \<Rightarrow> bool" where
  "query_holds lib q d = list_all (\<lambda>(f, c). cond_holds lib c (field_val f d)) q"

fun num_val :: "val \<Rightarrow> int" where
  "num_val (VInt n) = n"
| "num_val v = 0"

fun eval_accum :: "accum \<Rightarrow> doc list \<Rightarrow> val" where
  "eval_accum (Sum_of e) ds = VInt (sum_list (map (\<lambda>d. num_val (eval_expr e d)) ds))"

definition group_keys :: "val \<Rightarrow> doc list \<Rightarrow> val list" where
  "group_keys e ds = rev (remdups (rev (map (eval_expr e) ds)))"

definition group_docs :: "val \<Rightarrow> (string \<times> accum) list \<Rightarrow> doc list \<Rightarrow> doc list" where
  "group_docs e accs ds =
     map (\<lambda>k. (''_id'', k) #
              map (\<lambda>(f, a). (f, eval_accum a (filter (\<lambda>d. eval_expr e d = k) ds))) accs)
         (group_keys e ds)"

fun sort_rank :: "val option \<Rightarrow> nat \<times> int \<times> string" where
  "sort_rank None = (0, 0, '''')"
| "sort_rank (Some VNone) = (0, 0, '''')"
| "sort_rank (Some (VInt n)) = (1, n, '''')"
| "sort_rank (Some (VStr s)) = (2, 0, s)"
| "sort_rank (Some (VDict d)) = (3, 0, '''')"
| "sort_rank (Some (VList xs)) = (4, 0, '''')"
| "sort_rank (Some (VBool b)) = (5, (if b then 1 else 0), '''')"

definition sort_docs :: "string \<Rightarrow> doc list \<Rightarrow> doc list" where
  "sort_docs f ds = sort_key (\<lambda>d. sort_rank (field_val f d)) ds"

fun run_stage :: "rx_library \<Rightarrow> stage \<Rightarrow> doc list \<Rightarrow> exn + doc list" where
  "run_stage lib (Unwind p) ds =
     (case p of
        [] \<Rightarrow> Inl (PyMongoError ''$unwind path must start with $'')
      | c # f \<Rightarrow>
          if c = CHR ''$'' \<and> f \<noteq> [] then Inr (concat (map (unwind_doc f) ds))
          else Inl (PyMongoError ''$unwind path must start with $''))"
| "run_stage lib (Match q) ds =
     (case query_error lib q of
        Some e \<Rightarrow> Inl e
      | None \<Rightarrow> Inr (filter (query_holds lib q) ds))"
| "run_stage lib (Group e accs) ds = Inr (group_docs e accs ds)"
| "run_stage lib (Sort f dir) ds =
     (if dir = 1 then Inr (sort_docs f ds)
      else if dir = - 1 then Inr (rev (sort_docs f ds))
      else Inl (PyMongoError ''$sort key ordering must be 1 or -1''))"
| "run_stage lib (Limit n) ds =
     (if n \<le> 0 then Inl (PyMongoError ''the limit must be positive'')
      else Inr (take (nat n) ds))"
| "run_stage lib (Count f) ds =
     Inr (if ds = [] then [] else [[(f, VInt (int (length ds)))]])"

fun run_pipeline :: "rx_library \<Rightarrow> stage list \<Rightarrow> doc list \<Rightarrow> exn + doc list" where
  "run_pipeline lib [] ds = Inr ds"
| "run_pipeline lib (s # ss) ds =
     (case run_stage lib s ds of Inl e \<Rightarrow> Inl e | Inr ds' \<Rightarrow> run_pipeline lib ss ds')"

definition count_docs :: "rx_library \<Rightarrow> query \<Rightarrow> doc list \<Rightarrow> exn + int" where
  "count_docs lib q ds =
     (case query_error lib q of
        Some e \<Rightarrow> Inl e
      | None \<Rightarrow> Inr (int (length (filter (query_holds lib q) ds))))"

text \<open>
  The store over a collection held as a list of documents, for an expression library
  \<open>lib\<close>: both operations only read the collection.
\<close>

definition mongo :: "rx_library \<Rightarrow> (doc list) store" where
  "mongo lib =
     \<lparr>aggregate = (\<lambda>p db. (run_pipeline lib p db, db)),
      count_documents = (\<lambda>q db. (count_docs lib q db, db))\<rparr>"

text \<open>
  The library that rejects every pattern it is asked about. It stands in the closed
  examples below, whose patterns all lie in the fragment, so that it is never asked.
\<close>

definition no_library :: rx_library where
  "no_library p opts = Rx_rejected ''pattern outside the modelled fragment''"

subsection \<open>Recording the calls a handler makes\<close>

datatype store_call = Aggregate "stage list" | Count_documents query

text \<open>\<open>logged st\<close> behaves as \<open>st\<close> and appends every call it receives to a log.\<close>

definition logged :: "'db store \<Rightarrow> ('db \<times> store_call list) store" where
  "logged st =
     \<lparr>aggregate = (\<lambda>p (db, log).
        (case aggregate st p db of (r, db') \<Rightarrow> (r, (db', log @ [Aggregate p])))),
      count_documents = (\<lambda>q (db, log).
        (case count_documents st q db of (r, db') \<Rightarrow> (r, (db', log @ [Count_documents q]))))\<rparr>"

subsection \<open>Well-formed movie documents\<close>

text \<open>
  The documents of the collection, as the pipelines read them: \<^verbatim>\<open>genres\<close> is a list of
  \<^verbatim>\<open>{name}\<close>, \<^verbatim>\<open>crew\<close> a list of \<^verbatim>\<open>{name, job}\<close>, \<^verbatim>\<open>revenue\<close> a number.
\<close>

record credit =
  name :: string
  job :: string

record movie =
  genres :: "string list"
  crew :: "credit list"
  revenue :: int

definition credit_doc :: "credit \<Rightarrow> val" where
  "credit_doc c = VDict [(''name'', VStr (name c)), (''job'', VStr (job c))]"

definition movie_doc :: "movie \<Rightarrow> doc" where
  "movie_doc m =
     [(''genres'', VList (map (\<lambda>g. VDict [(''name'', VStr g)]) (genres m))),
      (''crew'', VList (map credit_doc (crew m))),
      (''revenue'', VInt (revenue m))]"

section \<open>Notions used to state the properties\<close>

text \<open>The integers in field \<open>f\<close> of the rows of a response body, when every row has one.\<close>

fun int_field :: "string \<Rightarrow> val \<Rightarrow> int option" where
  "int_field f (VDict d) = (case map_of d f of Some (VInt n) \<Rightarrow> Some n | _ \<Rightarrow> None)"
| "int_field f v = None"

fun int_column :: "string \<Rightarrow> val \<Rightarrow> int list option" where
  "int_column f (VList rows) = those (map (int_field f) rows)"
| "int_column f v = None"

definition non_decreasing :: "int list \<Rightarrow> bool" where
  "non_decreasing xs = sorted_wrt (\<le>) xs"

definition non_increasing :: "int list \<Rightarrow> bool" where
  "non_increasing xs = sorted_wrt (\<ge>) xs"

text \<open>
  The revenue credited to a director name by a collection of movies: the revenue of the
  movie once for every crew entry of that movie with that name and the job \<open>Director\<close>.
\<close>

definition directing_credits :: "movie list \<Rightarrow> (string \<times> int) list" where
  "directing_credits ms =
     concat (map (\<lambda>m. map (\<lambda>c. (name c, revenue m))
                          (filter (\<lambda>c. job c = ''Director'') (crew m))) ms)"

definition credited_revenue :: "movie list \<Rightarrow> string \<Rightarrow> int" where
  "credited_revenue ms d =
     sum_list (map snd (filter (\<lambda>(n, r). n = d) (directing_credits ms)))"



text \<open>
  A store with a failing connection: its state is the number of calls it still
  answers (with an empty result); every later call raises.
\<close>

definition flaky_store :: "nat store" where
  "flaky_store =
     \<lparr>aggregate = (\<lambda>p k.
        if k = 0 then (Inl (PyMongoError ''connection lost''), 0) else (Inr [], k - 1)),
      count_documents = (\<lambda>q k.
        if k = 0 then (Inl (PyMongoError ''connection lost''), 0) else (Inr 0, k - 1))\<rparr>"

text \<open>The document that \<open>$unwind\<close> of \<open>crew\<close> makes of a movie and one of its crew entries.\<close>

definition credit_row :: "movie \<Rightarrow> credit \<Rightarrow> doc" where
  "credit_row m c = dict_set (movie_doc m) ''crew'' (credit_doc c)"

text \<open>The names with a directing credit, each once, in order of first credit.\<close>

definition director_names :: "movie list \<Rightarrow> string list" where
  "director_names ms = rev (remdups (rev (map fst (directing_credits ms))))"

section \<open>Parameters\<close>

lemma genres_limit_cases:
  "genres_limit req =
     (case map_of (args req) ''limit'' of
        None \<Rightarrow> 10
      | Some s \<Rightarrow> (case py_int s of None \<Rightarrow> 10 | Some n \<Rightarrow> max 1 (min n 50)))"
  by (simp add: genres_limit_def args_get_int_def split: option.splits)

lemma directors_limit_cases:
  "directors_limit req =
     (case map_of (args req) ''limit'' of
        None \<Rightarrow> 5
      | Some s \<Rightarrow> (case py_int s of None \<Rightarrow> 5 | Some n \<Rightarrow> max 1 (min n 30)))"
  by (simp add: directors_limit_def args_get_int_def split: option.splits)

lemma genres_limit_range: "1 \<le> genres_limit req \<and> genres_limit req \<le> 50"
  by (simp add: genres_limit_def Let_def)

lemma directors_limit_range: "1 \<le> directors_limit req \<and> directors_limit req \<le> 30"
  by (simp add: directors_limit_def Let_def)

lemma sort_direction_cases:
  "sort_direction req =
     (case map_of (args req) ''sort'' of
        None \<Rightarrow> - 1
      | Some s \<Rightarrow> if s = ''desc'' then - 1 else 1)"
  by (simp add: sort_direction_def args_get_str_def split: option.splits)

lemmas py_int_simps = py_int_def strip_def is_space_def py_nat_def digit_val_def max_str_digits_def

subsection \<open>The calls each handler makes\<close>

lemma logged_top_genres:
  "snd (snd (get_top_genres (logged st) req (db, log))) =
     log @ [Aggregate (top_genres_pipeline (genres_limit req) (sort_direction req))]"
  by (simp add: get_top_genres_def get_top_genres_try_def except_500_def logged_def Let_def
      split: prod.splits sum.splits)

lemma logged_top_directors:
  "snd (snd (get_top_directors_revenue (logged st) req (db, log))) =
     log @ [Aggregate (top_directors_pipeline (directors_limit req) (sort_direction req))]"
  by (simp add: get_top_directors_revenue_def get_top_directors_revenue_try_def except_500_def
      logged_def Let_def split: prod.splits sum.splits)

text \<open>
  C3. The limit a report passes to the store is the clamp of the integer given as
  \<open>limit\<close>: into 1..50 for \<open>top_generos\<close> and into 1..30 for \<open>top_directores_ingresos\<close>.
  A value above the bound becomes the bound, a value below 1 becomes 1, a value in
  range is kept; an absent or unparsable \<open>limit\<close> gives 10 and 5. The \<open>$limit\<close> stage of
  the one pipeline each report submits carries this value.
\<close>

theorem limit_is_clamped:
  "(map_of (args req) ''limit'' = Some s \<and> py_int s = Some n \<longrightarrow>
      genres_limit req = max 1 (min n 50) \<and> directors_limit req = max 1 (min n 30) \<and>
      (50 < n \<longrightarrow> genres_limit req = 50) \<and> (30 < n \<longrightarrow> directors_limit req = 30) \<and>
      (n < 1 \<longrightarrow> genres_limit req = 1 \<and> directors_limit req = 1) \<and>
      (1 \<le> n \<and> n \<le> 50 \<longrightarrow> genres_limit req = n) \<and>
      (1 \<le> n \<and> n \<le> 30 \<longrightarrow> directors_limit req = n)) \<and>
   (map_of (args req) ''limit'' = None \<or>
      (\<exists>t. map_of (args req) ''limit'' = Some t \<and> py_int t = None) \<longrightarrow>
      genres_limit req = 10 \<and> directors_limit req = 5) \<and>
   (\<exists>p. snd (snd (get_top_genres (logged st) req (db, []))) = [Aggregate p] \<and>
        last p = Limit (genres_limit req)) \<and>
   (\<exists>p. snd (snd (get_top_directors_revenue (logged st) req (db, []))) = [Aggregate p] \<and>
        last p = Limit (directors_limit req))"
  by (auto simp: genres_limit_cases directors_limit_cases logged_top_genres logged_top_directors
      top_genres_pipeline_def top_directors_pipeline_def split: option.splits)

theorem limit_is_clamped_witness:
  "genres_limit \<lparr>args = [(''limit'', ''999'')]\<rparr> = 50 \<and>
   directors_limit \<lparr>args = [(''limit'', ''999'')]\<rparr> = 30 \<and>
   genres_limit \<lparr>args = [(''limit'', ''-3'')]\<rparr> = 1 \<and>
   directors_limit \<lparr>args = [(''limit'', ''0'')]\<rparr> = 1 \<and>
   genres_limit \<lparr>args = [(''limit'', ''42'')]\<rparr> = 42 \<and>
   directors_limit \<lparr>args = [(''limit'', ''7'')]\<rparr> = 7 \<and>
   genres_limit \<lparr>args = []\<rparr> = 10 \<and>
   directors_limit \<lparr>args = [(''limit'', ''abc'')]\<rparr> = 5 \<and>
   py_int [CHR 0x1C, CHR ''5''] = None \<and>
   genres_limit \<lparr>args = [(''limit'', [CHR 0x1C, CHR ''5''])]\<rparr> = 10 \<and>
   directors_limit \<lparr>args = [(''limit'', [CHR 0x1C, CHR ''5''])]\<rparr> = 5 \<and>
   py_int [CHR 0x09, CHR ''7'', CHR 0xA0] = Some 7 \<and>
   genres_limit \<lparr>args = [(''limit'', [CHR 0x09, CHR ''7'', CHR 0xA0])]\<rparr> = 7"
proof -
  have p1: "py_int ''999'' = Some 999" and p2: "py_int ''-3'' = Some (- 3)"
    and p3: "py_int ''0'' = Some 0" and p4: "py_int ''42'' = Some 42"
    and p5: "py_int ''7'' = Some 7" and p6: "py_int ''abc'' = None"
    and p7: "py_int [CHR 0x1C, CHR ''5''] = None"
    and p8: "py_int [CHR 0x09, CHR ''7'', CHR 0xA0] = Some 7"
    by (simp_all add: py_int_simps)
  show ?thesis
    using limit_is_clamped [where req = "\<lparr>args = [(''limit'', ''999'')]\<rparr>" and s = "''999''" and n = "999" and st = "mongo no_library" and db = "[]"]
      limit_is_clamped [where req = "\<lparr>args = [(''limit'', ''-3'')]\<rparr>" and s = "''-3''" and n = "- 3" and st = "mongo no_library" and db = "[]"]
      limit_is_clamped [where req = "\<lparr>args = [(''limit'', ''0'')]\<rparr>" and s = "''0''" and n = "0" and st = "mongo no_library" and db = "[]"]
      limit_is_clamped [where req = "\<lparr>args = [(''limit'', ''42'')]\<rparr>" and s = "''42''" and n = "42" and st = "mongo no_library" and db = "[]"]
      limit_is_clamped [where req = "\<lparr>args = [(''limit'', ''7'')]\<rparr>" and s = "''7''" and n = "7" and st = "mongo no_library" and db = "[]"]
      limit_is_clamped [where req = "\<lparr>args = []\<rparr>" and st = "mongo no_library" and db = "[]"]
      limit_is_clamped [where req = "\<lparr>args = [(''limit'', ''abc'')]\<rparr>" and st = "mongo no_library" and db = "[]"]
      limit_is_clamped [where req = "\<lparr>args = [(''limit'', [CHR 0x1C, CHR ''5''])]\<rparr>"
        and st = "mongo no_library" and db = "[]"]
      limit_is_clamped [where req = "\<lparr>args = [(''limit'', [CHR 0x09, CHR ''7'', CHR 0xA0])]\<rparr>"
        and s = "[CHR 0x09, CHR ''7'', CHR 0xA0]" and n = "7" and st = "mongo no_library" and db = "[]"]
      p1 p2 p3 p4 p5 p6 p7 p8
    by simp
qed

text \<open>
  C2, as stated: the string \<open>desc\<close> maps to descending and every other case, an absent
  \<open>sort\<close> included, to ascending. An absent \<open>sort\<close> takes the default \<open>desc\<close> first, so
  it maps to descending (-1).
\<close>

theorem sort_absent_is_descending:
  "map_of (args \<lparr>args = []\<rparr>) ''sort'' = None \<and> sort_direction \<lparr>args = []\<rparr> = - 1 \<and>
   sort_direction \<lparr>args = []\<rparr> \<noteq> 1"
  by (simp add: sort_direction_def args_get_str_def)

text \<open>
  C2, amended. The direction is descending (-1) when \<open>sort\<close> is the exact string \<open>desc\<close>
  or is absent, and ascending (1) for every other value that is present (\<open>asc\<close>, the
  empty string, any other string). Both reports put this direction in their \<open>$sort\<close> stage.
\<close>

theorem sort_direction_mapping:
  "sort_direction req =
     (case map_of (args req) ''sort'' of
        None \<Rightarrow> - 1
      | Some s \<Rightarrow> if s = ''desc'' then - 1 else 1) \<and>
   snd (snd (get_top_genres (logged st) req (db, []))) =
     [Aggregate [Unwind ''$genres'',
                 Group (VStr ''$genres.name'') [(''conteo'', Sum_of (VInt 1))],
                 Sort ''conteo'' (sort_direction req),
                 Limit (genres_limit req)]] \<and>
   snd (snd (get_top_directors_revenue (logged st) req (db, []))) =
     [Aggregate [Unwind ''$crew'',
                 Match [(''crew.job'', Eq (VStr ''Director''))],
                 Group (VStr ''$crew.name'') [(''ingresos_totales'', Sum_of (VStr ''$revenue''))],
                 Sort ''ingresos_totales'' (sort_direction req),
                 Limit (directors_limit req)]]"
  by (simp add: sort_direction_cases logged_top_genres logged_top_directors
      top_genres_pipeline_def top_directors_pipeline_def)

theorem sort_direction_mapping_witness:
  "sort_direction \<lparr>args = [(''sort'', ''desc'')]\<rparr> = - 1 \<and>
   sort_direction \<lparr>args = [(''sort'', ''asc'')]\<rparr> = 1 \<and>
   sort_direction \<lparr>args = [(''sort'', ''xyz'')]\<rparr> = 1 \<and>
   sort_direction \<lparr>args = [(''sort'', ''DESC'')]\<rparr> = 1 \<and>
   sort_direction \<lparr>args = [(''limit'', ''3'')]\<rparr> = - 1"
  using sort_direction_mapping [where req = "\<lparr>args = [(''sort'', ''desc'')]\<rparr>" and st = "mongo no_library" and db = "[]"]
    sort_direction_mapping [where req = "\<lparr>args = [(''sort'', ''asc'')]\<rparr>" and st = "mongo no_library" and db = "[]"]
    sort_direction_mapping [where req = "\<lparr>args = [(''sort'', ''xyz'')]\<rparr>" and st = "mongo no_library" and db = "[]"]
    sort_direction_mapping [where req = "\<lparr>args = [(''sort'', ''DESC'')]\<rparr>" and st = "mongo no_library" and db = "[]"]
    sort_direction_mapping [where req = "\<lparr>args = [(''limit'', ''3'')]\<rparr>" and st = "mongo no_library" and db = "[]"]
  by simp

section \<open>The index endpoint\<close>

text \<open>
  C6, as stated: the payload is \<open>{status: "API running", db_connected: true}\<close>. The
  handler's payload has the key \<open>db_conectada\<close> and the status text \<open>API corriendo\<close>.
\<close>

theorem index_payload_differs:
  "fst (index (mongo no_library) \<lparr>args = []\<rparr> []) \<noteq>
     \<lparr>body = VDict [(''status'', VStr ''API running''), (''db_connected'', VBool True)],
      status = 200\<rparr>"
  by (simp add: index_def jsonify_def)

text \<open>
  C6, amended. For every store, every state of it and every request, the index
  endpoint answers 200 with the static payload
  \<open>{"status": "API corriendo", "db_conectada": true}\<close>, makes no store call and leaves
  the store as it was.
\<close>

theorem index_static:
  "index st req db =
     (\<lparr>body = VDict [(''status'', VStr ''API corriendo''), (''db_conectada'', VBool True)],
       status = 200\<rparr>, db) \<and>
   snd (index (logged st) req (db, [])) = (db, [])"
  by (simp add: index_def jsonify_def)

section \<open>Exceptions at the handler boundary\<close>

lemma except_500_Inl:
  "except_500 (Inl e, d) = (\<lparr>body = VDict [(''error'', VStr (exn_str e))], status = 500\<rparr>, d)"
  by (simp add: except_500_def jsonify_status_def)

lemma except_500_Inr: "except_500 (Inr r, d) = (r, d)"
  by (simp add: except_500_def)

lemma top_genres_store_fails:
  "aggregate st (top_genres_pipeline (genres_limit req) (sort_direction req)) db = (Inl e, db')
   \<Longrightarrow> get_top_genres_try st req db = (Inl e, db')"
  by (simp add: get_top_genres_try_def Let_def)

lemma top_genres_row_fails:
  "aggregate st (top_genres_pipeline (genres_limit req) (sort_direction req)) db = (Inr rows, db')
   \<Longrightarrow> map_exn genre_row rows = Inl e
   \<Longrightarrow> get_top_genres_try st req db = (Inl e, db')"
  by (simp add: get_top_genres_try_def Let_def)

lemma top_directors_store_fails:
  "aggregate st (top_directors_pipeline (directors_limit req) (sort_direction req)) db = (Inl e, db')
   \<Longrightarrow> get_top_directors_revenue_try st req db = (Inl e, db')"
  by (simp add: get_top_directors_revenue_try_def Let_def)

lemma top_directors_row_fails:
  "aggregate st (top_directors_pipeline (directors_limit req) (sort_direction req)) db = (Inr rows, db')
   \<Longrightarrow> map_exn director_row rows = Inl e
   \<Longrightarrow> get_top_directors_revenue_try st req db = (Inl e, db')"
  by (simp add: get_top_directors_revenue_try_def Let_def)

lemma search_first_fails:
  "args_get_str req ''q'' '''' = q \<Longrightarrow> q \<noteq> ''''
   \<Longrightarrow> aggregate st (genre_search_pipeline q) db = (Inl e, db1)
   \<Longrightarrow> search_try st req db = (Inl e, db1)"
  by (simp add: search_try_def Let_def)

lemma search_second_fails:
  "args_get_str req ''q'' '''' = q \<Longrightarrow> q \<noteq> ''''
   \<Longrightarrow> aggregate st (genre_search_pipeline q) db = (Inr gs, db1)
   \<Longrightarrow> aggregate st (director_search_pipeline q) db1 = (Inl e, db2)
   \<Longrightarrow> search_try st req db = (Inl e, db2)"
  by (simp add: search_try_def Let_def)

lemma stats_first_fails:
  "count_documents st [] db = (Inl e, db1) \<Longrightarrow> get_stats_try st req db = (Inl e, db1)"
  by (simp add: get_stats_try_def)

lemma stats_second_fails:
  "count_documents st [] db = (Inr n, db1)
   \<Longrightarrow> aggregate st stats_genre_pipeline db1 = (Inl e, db2)
   \<Longrightarrow> get_stats_try st req db = (Inl e, db2)"
  by (simp add: get_stats_try_def)

lemma stats_third_fails:
  "count_documents st [] db = (Inr n, db1)
   \<Longrightarrow> aggregate st stats_genre_pipeline db1 = (Inr gr, db2)
   \<Longrightarrow> (case gr of [] \<Rightarrow> Inr (VInt 0) | d # _ \<Rightarrow> getitem d ''total'') = Inr tg
   \<Longrightarrow> aggregate st stats_director_pipeline db2 = (Inl e, db3)
   \<Longrightarrow> get_stats_try st req db = (Inl e, db3)"
  by (simp add: get_stats_try_def)

text \<open>
  C8. In each of the four handlers that touch the store, an exception \<open>e\<close> raised
  anywhere in the body gives the response 500 with body \<open>{"error": str(e)}\<close>, and
  nothing else of the body's work is returned. This covers every store call of every
  handler: the one call of each report, either call of \<open>search\<close> (a failure of the
  second discards the result of the first), and each of the three calls of \<open>stats\<close>;
  and it covers a \<open>KeyError\<close> raised while the rows are shaped. A body that returns a
  response has that response returned unchanged.
\<close>

theorem exceptions_become_500:
  "(get_top_genres_try st req db = (Inl e, db') \<longrightarrow>
      get_top_genres st req db =
        (\<lparr>body = VDict [(''error'', VStr (exn_str e))], status = 500\<rparr>, db')) \<and>
   (get_top_directors_revenue_try st req db = (Inl e, db') \<longrightarrow>
      get_top_directors_revenue st req db =
        (\<lparr>body = VDict [(''error'', VStr (exn_str e))], status = 500\<rparr>, db')) \<and>
   (search_try st req db = (Inl e, db') \<longrightarrow>
      search st req db =
        (\<lparr>body = VDict [(''error'', VStr (exn_str e))], status = 500\<rparr>, db')) \<and>
   (get_stats_try st req db = (Inl e, db') \<longrightarrow>
      get_stats st req db =
        (\<lparr>body = VDict [(''error'', VStr (exn_str e))], status = 500\<rparr>, db')) \<and>
   (aggregate st (top_genres_pipeline (genres_limit req) (sort_direction req)) db = (Inl e, db') \<or>
    (\<exists>rows. aggregate st (top_genres_pipeline (genres_limit req) (sort_direction req)) db
               = (Inr rows, db') \<and> map_exn genre_row rows = Inl e) \<longrightarrow>
      get_top_genres st req db =
        (\<lparr>body = VDict [(''error'', VStr (exn_str e))], status = 500\<rparr>, db')) \<and>
   (aggregate st (top_directors_pipeline (directors_limit req) (sort_direction req)) db
      = (Inl e, db') \<or>
    (\<exists>rows. aggregate st (top_directors_pipeline (directors_limit req) (sort_direction req)) db
               = (Inr rows, db') \<and> map_exn director_row rows = Inl e) \<longrightarrow>
      get_top_directors_revenue st req db =
        (\<lparr>body = VDict [(''error'', VStr (exn_str e))], status = 500\<rparr>, db')) \<and>
   (args_get_str req ''q'' '''' = q \<and> q \<noteq> '''' \<and>
    (aggregate st (genre_search_pipeline q) db = (Inl e, db') \<or>
     (\<exists>gs db1. aggregate st (genre_search_pipeline q) db = (Inr gs, db1) \<and>
               aggregate st (director_search_pipeline q) db1 = (Inl e, db'))) \<longrightarrow>
      search st req db =
        (\<lparr>body = VDict [(''error'', VStr (exn_str e))], status = 500\<rparr>, db')) \<and>
   (count_documents st [] db = (Inl e, db') \<or>
    (\<exists>n db1. count_documents st [] db = (Inr n, db1) \<and>
       (aggregate st stats_genre_pipeline db1 = (Inl e, db') \<or>
        (\<exists>gr db2 tg. aggregate st stats_genre_pipeline db1 = (Inr gr, db2) \<and>
           (case gr of [] \<Rightarrow> Inr (VInt 0) | d # _ \<Rightarrow> getitem d ''total'') = Inr tg \<and>
           aggregate st stats_director_pipeline db2 = (Inl e, db')))) \<longrightarrow>
      get_stats st req db =
        (\<lparr>body = VDict [(''error'', VStr (exn_str e))], status = 500\<rparr>, db')) \<and>
   (\<forall>r. get_top_genres_try st req db = (Inr r, db') \<longrightarrow> get_top_genres st req db = (r, db')) \<and>
   (\<forall>r. get_top_directors_revenue_try st req db = (Inr r, db') \<longrightarrow>
      get_top_directors_revenue st req db = (r, db')) \<and>
   (\<forall>r. search_try st req db = (Inr r, db') \<longrightarrow> search st req db = (r, db')) \<and>
   (\<forall>r. get_stats_try st req db = (Inr r, db') \<longrightarrow> get_stats st req db = (r, db'))"
proof -
  have g: "get_top_genres_try st req db = (Inl e, db') \<Longrightarrow>
      get_top_genres st req db =
        (\<lparr>body = VDict [(''error'', VStr (exn_str e))], status = 500\<rparr>, db')"
    by (simp add: get_top_genres_def except_500_Inl)
  have d: "get_top_directors_revenue_try st req db = (Inl e, db') \<Longrightarrow>
      get_top_directors_revenue st req db =
        (\<lparr>body = VDict [(''error'', VStr (exn_str e))], status = 500\<rparr>, db')"
    by (simp add: get_top_directors_revenue_def except_500_Inl)
  have s: "search_try st req db = (Inl e, db') \<Longrightarrow>
      search st req db =
        (\<lparr>body = VDict [(''error'', VStr (exn_str e))], status = 500\<rparr>, db')"
    by (simp add: search_def except_500_Inl)
  have t: "get_stats_try st req db = (Inl e, db') \<Longrightarrow>
      get_stats st req db =
        (\<lparr>body = VDict [(''error'', VStr (exn_str e))], status = 500\<rparr>, db')"
    by (simp add: get_stats_def except_500_Inl)
  have ok: "(\<forall>r. get_top_genres_try st req db = (Inr r, db') \<longrightarrow>
                get_top_genres st req db = (r, db')) \<and>
     (\<forall>r. get_top_directors_revenue_try st req db = (Inr r, db') \<longrightarrow>
        get_top_directors_revenue st req db = (r, db')) \<and>
     (\<forall>r. search_try st req db = (Inr r, db') \<longrightarrow> search st req db = (r, db')) \<and>
     (\<forall>r. get_stats_try st req db = (Inr r, db') \<longrightarrow> get_stats st req db = (r, db'))"
    by (simp add: get_top_genres_def get_top_directors_revenue_def search_def get_stats_def
        except_500_Inr)
  show ?thesis
    using g d s t ok
    by (blast intro: top_genres_store_fails top_genres_row_fails top_directors_store_fails
        top_directors_row_fails search_first_fails search_second_fails stats_first_fails
        stats_second_fails stats_third_fails)
qed

theorem exceptions_become_500_witness:
  "get_top_genres flaky_store \<lparr>args = []\<rparr> 0 =
     (\<lparr>body = VDict [(''error'', VStr ''connection lost'')], status = 500\<rparr>, 0) \<and>
   get_top_directors_revenue flaky_store \<lparr>args = []\<rparr> 0 =
     (\<lparr>body = VDict [(''error'', VStr ''connection lost'')], status = 500\<rparr>, 0) \<and>
   search flaky_store \<lparr>args = [(''q'', ''dra'')]\<rparr> 1 =
     (\<lparr>body = VDict [(''error'', VStr ''connection lost'')], status = 500\<rparr>, 0) \<and>
   get_stats flaky_store \<lparr>args = []\<rparr> 2 =
     (\<lparr>body = VDict [(''error'', VStr ''connection lost'')], status = 500\<rparr>, 0)"
proof -
  have g: "get_top_genres_try flaky_store \<lparr>args = []\<rparr> 0
             = (Inl (PyMongoError ''connection lost''), 0)"
    by (simp add: get_top_genres_try_def flaky_store_def Let_def)
  have d: "get_top_directors_revenue_try flaky_store \<lparr>args = []\<rparr> 0
             = (Inl (PyMongoError ''connection lost''), 0)"
    by (simp add: get_top_directors_revenue_try_def flaky_store_def Let_def)
  have s: "search_try flaky_store \<lparr>args = [(''q'', ''dra'')]\<rparr> 1
             = (Inl (PyMongoError ''connection lost''), 0)"
    by (simp add: search_try_def flaky_store_def Let_def args_get_str_def)
  have t: "get_stats_try flaky_store \<lparr>args = []\<rparr> 2
             = (Inl (PyMongoError ''connection lost''), 0)"
    by (simp add: get_stats_try_def flaky_store_def)
  show ?thesis
    using exceptions_become_500 [where st = flaky_store and req = "\<lparr>args = []\<rparr>"
          and db = 0 and db' = 0 and e = "PyMongoError ''connection lost''"]
      exceptions_become_500 [where st = flaky_store and req = "\<lparr>args = [(''q'', ''dra'')]\<rparr>"
          and db = 1 and db' = 0 and e = "PyMongoError ''connection lost''"]
      exceptions_become_500 [where st = flaky_store and req = "\<lparr>args = []\<rparr>"
          and db = 2 and db' = 0 and e = "PyMongoError ''connection lost''"]
      g d s t
    by simp
qed

section \<open>The handlers only read the store\<close>

text \<open>
  C9. The handlers reach the store through \<open>aggregate\<close> and \<open>count_documents\<close> only,
  and every pipeline they submit is built from the reading stages \<open>$unwind\<close>,
  \<open>$match\<close>, \<open>$group\<close>, \<open>$sort\<close>, \<open>$limit\<close>, \<open>$count\<close>. So for every store on which
  these two operations leave the contents as they were, every handler returns with
  the contents it found, for every request and whatever the calls answer.
\<close>

theorem handlers_read_only:
  assumes agg: "\<And>p d. snd (aggregate st p d) = d"
    and cnt: "\<And>q d. snd (count_documents st q d) = d"
  shows "snd (index st req db) = db \<and>
         snd (get_top_genres st req db) = db \<and>
         snd (get_top_directors_revenue st req db) = db \<and>
         snd (search st req db) = db \<and>
         snd (get_stats st req db) = db"
proof -
  have a: "aggregate st p d = (r, d') \<Longrightarrow> d' = d" for p d r d'
    using agg [of p d] by simp
  have c: "count_documents st q d = (r, d') \<Longrightarrow> d' = d" for q d r d'
    using cnt [of q d] by simp
  have "snd (index st req db) = db"
    by (simp add: index_def)
  moreover have "snd (get_top_genres st req db) = db"
    by (auto simp: get_top_genres_def get_top_genres_try_def except_500_def Let_def
        split: prod.splits sum.splits dest: a)
  moreover have "snd (get_top_directors_revenue st req db) = db"
    by (auto simp: get_top_directors_revenue_def get_top_directors_revenue_try_def
        except_500_def Let_def split: prod.splits sum.splits dest: a)
  moreover have "snd (search st req db) = db"
    by (auto simp: search_def search_try_def except_500_def Let_def
        split: prod.splits sum.splits dest!: a)
  moreover have "snd (get_stats st req db) = db"
    by (auto simp: get_stats_def get_stats_try_def except_500_def
        split: prod.splits sum.splits list.splits dest!: a c)
  ultimately show ?thesis by simp
qed

theorem handlers_read_only_witness:
  "(\<forall>p d. snd (aggregate (mongo no_library) p d) = d) \<and>
   (\<forall>q d. snd (count_documents (mongo no_library) q d) = d) \<and>
   snd (index (mongo no_library) \<lparr>args = []\<rparr>
          [movie_doc \<lparr>genres = [''Drama''], crew = [], revenue = 100\<rparr>]) =
     [movie_doc \<lparr>genres = [''Drama''], crew = [], revenue = 100\<rparr>] \<and>
   snd (get_top_genres (mongo no_library) \<lparr>args = []\<rparr>
          [movie_doc \<lparr>genres = [''Drama''], crew = [], revenue = 100\<rparr>]) =
     [movie_doc \<lparr>genres = [''Drama''], crew = [], revenue = 100\<rparr>] \<and>
   snd (get_top_directors_revenue (mongo no_library) \<lparr>args = []\<rparr>
          [movie_doc \<lparr>genres = [''Drama''], crew = [], revenue = 100\<rparr>]) =
     [movie_doc \<lparr>genres = [''Drama''], crew = [], revenue = 100\<rparr>] \<and>
   snd (search (mongo no_library) \<lparr>args = [(''q'', ''dra'')]\<rparr>
          [movie_doc \<lparr>genres = [''Drama''], crew = [], revenue = 100\<rparr>]) =
     [movie_doc \<lparr>genres = [''Drama''], crew = [], revenue = 100\<rparr>] \<and>
   snd (get_stats (mongo no_library) \<lparr>args = []\<rparr>
          [movie_doc \<lparr>genres = [''Drama''], crew = [], revenue = 100\<rparr>]) =
     [movie_doc \<lparr>genres = [''Drama''], crew = [], revenue = 100\<rparr>]"
proof -
  have a: "snd (aggregate (mongo no_library) p d) = d" for p d
    by (simp add: mongo_def)
  have c: "snd (count_documents (mongo no_library) q d) = d" for q d
    by (simp add: mongo_def)
  show ?thesis
    using a c
      handlers_read_only [of "mongo no_library" "\<lparr>args = []\<rparr>"
        "[movie_doc \<lparr>genres = [''Drama''], crew = [], revenue = 100\<rparr>]", OF a c]
      handlers_read_only [of "mongo no_library" "\<lparr>args = [(''q'', ''dra'')]\<rparr>"
        "[movie_doc \<lparr>genres = [''Drama''], crew = [], revenue = 100\<rparr>]", OF a c]
    by simp
qed

section \<open>The search endpoint\<close>

lemma logged_search_empty:
  "args_get_str req ''q'' '''' = '''' \<Longrightarrow>
   search (logged st) req (db, log) =
     (\<lparr>body = VDict [(''error'', VStr q_required)], status = 400\<rparr>, (db, log))"
  by (simp add: search_def search_try_def except_500_def Let_def jsonify_status_def)

lemma logged_search_first:
  "args_get_str req ''q'' '''' = q \<Longrightarrow> q \<noteq> '''' \<Longrightarrow>
   \<exists>rest. snd (snd (search (logged st) req (db, log))) =
     log @ Aggregate (genre_search_pipeline q) # rest"
  by (auto simp: search_def search_try_def except_500_def Let_def logged_def
      split: prod.splits sum.splits)

lemma logged_search_both:
  "args_get_str req ''q'' '''' = q \<Longrightarrow> q \<noteq> '''' \<Longrightarrow>
   aggregate st (genre_search_pipeline q) db = (Inr gs, db1) \<Longrightarrow>
   snd (snd (search (logged st) req (db, log))) =
     log @ [Aggregate (genre_search_pipeline q), Aggregate (director_search_pipeline q)]"
  by (auto simp: search_def search_try_def except_500_def Let_def logged_def
      split: prod.splits sum.splits)

lemma logged_search_one:
  "args_get_str req ''q'' '''' = q \<Longrightarrow> q \<noteq> '''' \<Longrightarrow>
   aggregate st (genre_search_pipeline q) db = (Inl e, db1) \<Longrightarrow>
   search (logged st) req (db, log) =
     (\<lparr>body = VDict [(''error'', VStr (exn_str e))], status = 500\<rparr>,
      (db1, log @ [Aggregate (genre_search_pipeline q)]))"
  by (auto simp: search_def search_try_def except_500_def Let_def logged_def jsonify_status_def
      split: prod.splits sum.splits)

lemma args_q_cases:
  "args_get_str req ''q'' '''' =
     (case map_of (args req) ''q'' of None \<Rightarrow> '''' | Some v \<Rightarrow> v)"
  by (simp add: args_get_str_def)

lemma rx_paren: "regex_compile ''('' = Rx_invalid ''missing closing parenthesis''"
  by (simp add: regex_compile_def)

lemma rx_dot: "regex_compile ''.'' = Rx (RSeq RDot REps)"
  by (simp add: regex_compile_def)

lemma engine_paren:
  "regex_engine lib ''('' ''i'' = Rx_rejected ''missing closing parenthesis''"
  by (simp add: regex_engine_def rx_paren)

lemma engine_dot: "regex_engine lib ''.'' ''i'' = Rx_matcher (regex_find True (RSeq RDot REps))"
  by (simp add: regex_engine_def rx_dot)

text \<open>
  C4, as stated: for every non-empty \<open>q\<close> both searches are executed. With \<open>q = "("\<close>
  on a healthy store the genre search raises (the pattern does not compile), the
  handler answers 500, and the director search is never submitted.
\<close>

theorem search_unbalanced_skips_directors:
  "args_get_str \<lparr>args = [(''q'', ''('')]\<rparr> ''q'' '''' \<noteq> '''' \<and>
   search (logged (mongo no_library)) \<lparr>args = [(''q'', ''('')]\<rparr>
       ([movie_doc \<lparr>genres = [''Drama''], crew = [], revenue = 100\<rparr>], []) =
     (\<lparr>body = VDict [(''error'',
          VStr ''Regular expression is invalid: missing closing parenthesis'')],
       status = 500\<rparr>,
      ([movie_doc \<lparr>genres = [''Drama''], crew = [], revenue = 100\<rparr>],
       [Aggregate (genre_search_pipeline ''('')])) \<and>
   Aggregate (director_search_pipeline ''('') \<notin>
     set (snd (snd (search (logged (mongo no_library)) \<lparr>args = [(''q'', ''('')]\<rparr>
       ([movie_doc \<lparr>genres = [''Drama''], crew = [], revenue = 100\<rparr>], []))))"
proof -
  have q: "args_get_str \<lparr>args = [(''q'', ''('')]\<rparr> ''q'' '''' = ''(''"
    by (simp add: args_get_str_def)
  have f: "aggregate (mongo no_library) (genre_search_pipeline ''('')
             [movie_doc \<lparr>genres = [''Drama''], crew = [], revenue = 100\<rparr>] =
           (Inl (PyMongoError ''Regular expression is invalid: missing closing parenthesis''),
            [movie_doc \<lparr>genres = [''Drama''], crew = [], revenue = 100\<rparr>])"
    by (simp add: mongo_def genre_search_pipeline_def engine_paren)
  have ne: "Aggregate (director_search_pipeline ''('') \<noteq> Aggregate (genre_search_pipeline ''('')"
    by (simp add: director_search_pipeline_def genre_search_pipeline_def)
  show ?thesis
    using logged_search_one [OF q _ f, of "[]"] q ne by simp
qed

text \<open>
  C4, amended. When \<open>q\<close> is missing or empty, \<open>search\<close> answers 400 with the body
  \<open>{"error": m}\<close>, where \<open>m\<close> is the handler's message (\<open>Par\<close>, the character with
  code point 0xE1, \<open>metro 'q' requerido\<close>), and makes no store call. When \<open>q\<close> is not
  empty, the genre search is submitted first, with \<open>q\<close> as its pattern; the director
  search is submitted after it exactly when the genre search returned without raising,
  and when it raised the answer is the 500 response and no further call is made.
\<close>

theorem search_q_gate:
  "(map_of (args req) ''q'' = None \<or> map_of (args req) ''q'' = Some '''' \<longrightarrow>
      search (logged st) req (db, []) =
        (\<lparr>body = VDict [(''error'',
             VStr (''Par'' @ [CHR 0xE1] @ ''metro 'q' requerido''))],
          status = 400\<rparr>, (db, []))) \<and>
   (map_of (args req) ''q'' = Some q \<and> q \<noteq> '''' \<longrightarrow>
      (\<exists>rest. snd (snd (search (logged st) req (db, []))) =
                Aggregate (genre_search_pipeline q) # rest) \<and>
      (\<forall>gs db1. aggregate st (genre_search_pipeline q) db = (Inr gs, db1) \<longrightarrow>
         snd (snd (search (logged st) req (db, []))) =
           [Aggregate (genre_search_pipeline q), Aggregate (director_search_pipeline q)]) \<and>
      (\<forall>e db1. aggregate st (genre_search_pipeline q) db = (Inl e, db1) \<longrightarrow>
         search (logged st) req (db, []) =
           (\<lparr>body = VDict [(''error'', VStr (exn_str e))], status = 500\<rparr>,
            (db1, [Aggregate (genre_search_pipeline q)]))))"
proof -
  have e: "map_of (args req) ''q'' = None \<or> map_of (args req) ''q'' = Some '''' \<Longrightarrow>
      search (logged st) req (db, []) =
        (\<lparr>body = VDict [(''error'',
             VStr (''Par'' @ [CHR 0xE1] @ ''metro 'q' requerido''))],
          status = 400\<rparr>, (db, []))"
    using logged_search_empty [of req st db "[]"]
    by (auto simp: args_q_cases q_required_def)
  have n: "map_of (args req) ''q'' = Some q \<Longrightarrow> args_get_str req ''q'' '''' = q"
    by (simp add: args_q_cases)
  show ?thesis
    using e n logged_search_first [of req q st db "[]"] logged_search_both [of req q st db _ _ "[]"]
      logged_search_one [of req q st db _ _ "[]"]
    by (simp del: append_Nil) (simp)
qed

theorem search_q_gate_witness:
  "search (logged (mongo no_library)) \<lparr>args = []\<rparr>
       ([movie_doc \<lparr>genres = [''Drama''], crew = [], revenue = 100\<rparr>], []) =
     (\<lparr>body = VDict [(''error'', VStr (''Par'' @ [CHR 0xE1] @ ''metro 'q' requerido''))],
       status = 400\<rparr>,
      ([movie_doc \<lparr>genres = [''Drama''], crew = [], revenue = 100\<rparr>], [])) \<and>
   snd (snd (search (logged (mongo no_library)) \<lparr>args = [(''q'', ''.'')]\<rparr>
       ([movie_doc \<lparr>genres = [''Drama''], crew = [], revenue = 100\<rparr>], []))) =
     [Aggregate (genre_search_pipeline ''.''), Aggregate (director_search_pipeline ''.'')] \<and>
   search (logged (mongo no_library)) \<lparr>args = [(''q'', ''('')]\<rparr>
       ([movie_doc \<lparr>genres = [''Drama''], crew = [], revenue = 100\<rparr>], []) =
     (\<lparr>body = VDict [(''error'',
          VStr ''Regular expression is invalid: missing closing parenthesis'')],
       status = 500\<rparr>,
      ([movie_doc \<lparr>genres = [''Drama''], crew = [], revenue = 100\<rparr>],
       [Aggregate (genre_search_pipeline ''('')]))"
proof -
  have f: "aggregate (mongo no_library) (genre_search_pipeline ''('')
             [movie_doc \<lparr>genres = [''Drama''], crew = [], revenue = 100\<rparr>] =
           (Inl (PyMongoError ''Regular expression is invalid: missing closing parenthesis''),
            [movie_doc \<lparr>genres = [''Drama''], crew = [], revenue = 100\<rparr>])"
    by (simp add: mongo_def genre_search_pipeline_def engine_paren)
  have g: "\<exists>gs. aggregate (mongo no_library) (genre_search_pipeline ''.'')
             [movie_doc \<lparr>genres = [''Drama''], crew = [], revenue = 100\<rparr>] =
           (Inr gs, [movie_doc \<lparr>genres = [''Drama''], crew = [], revenue = 100\<rparr>])"
    by (simp add: mongo_def genre_search_pipeline_def engine_dot)
  show ?thesis
    using f g
      search_q_gate [where st = "mongo no_library" and req = "\<lparr>args = []\<rparr>"
        and db = "[movie_doc \<lparr>genres = [''Drama''], crew = [], revenue = 100\<rparr>]"]
      search_q_gate [where st = "mongo no_library" and req = "\<lparr>args = [(''q'', ''.'')]\<rparr>" and q = "''.''"
        and db = "[movie_doc \<lparr>genres = [''Drama''], crew = [], revenue = 100\<rparr>]"]
      search_q_gate [where st = "mongo no_library" and req = "\<lparr>args = [(''q'', ''('')]\<rparr>" and q = "''(''"
        and db = "[movie_doc \<lparr>genres = [''Drama''], crew = [], revenue = 100\<rparr>]"]
    by auto
qed

section \<open>The statistics of an empty collection\<close>

text \<open>
  C7. On an empty collection \<open>stats\<close> answers 200 with exactly
  \<open>{"total_movies": 0, "total_genres": 0, "top_director": null}\<close>.
\<close>

theorem stats_of_empty_collection:
  "get_stats (mongo lib) req [] =
     (\<lparr>body = VDict [(''total_movies'', VInt 0), (''total_genres'', VInt 0),
                      (''top_director'', VNone)],
       status = 200\<rparr>, [])"
  by (simp add: get_stats_def get_stats_try_def mongo_def count_docs_def
      stats_genre_pipeline_def stats_director_pipeline_def group_docs_def group_keys_def
      sort_docs_def except_500_def jsonify_def query_holds_def)

section \<open>The order of the reports\<close>

lemma field_path_conteo: "field_path ''conteo'' = [''conteo'']"
  by (simp add: field_path_def)

lemma field_path_ingresos: "field_path ''ingresos_totales'' = [''ingresos_totales'']"
  by (simp add: field_path_def)

lemma field_val_top:
  "field_path f = [f] \<Longrightarrow> field_val f d = map_of d f"
  by (simp add: field_val_def split: option.splits)

lemma group_docs_sum_row:
  "d \<in> set (group_docs e [(f, Sum_of a)] ds) \<Longrightarrow>
   \<exists>k c. d = [(''_id'', k), (f, VInt c)]"
  by (auto simp: group_docs_def)

lemma sort_docs_set: "set (sort_docs f ds) = set ds"
  by (simp add: sort_docs_def)

lemma sort_docs_length: "length (sort_docs f ds) = length ds"
  by (simp add: sort_docs_def)

lemma sort_docs_distinct: "distinct (sort_docs f ds) = distinct ds"
  by (simp add: sort_docs_def)

text \<open>Rows that carry an integer in the sort field come out of \<open>$sort\<close> in the order of these integers.\<close>

lemma sorted_int_rows:
  assumes fp: "field_path f = [f]"
    and rows: "\<forall>d \<in> set ds. \<exists>c. map_of d f = Some (VInt c)"
  shows "sorted_wrt (\<le>) (map (\<lambda>d. the (int_field f (VDict d))) (sort_docs f ds))"
proof -
  let ?key = "\<lambda>d. sort_rank (field_val f d)"
  let ?val = "\<lambda>d. the (int_field f (VDict d))"
  have k: "?key d = (1, ?val d, '''')" if "d \<in> set ds" for d
    using rows that by (auto simp: field_val_top [OF fp])
  have "sorted (map ?key (sort_key ?key ds))"
    by (rule sorted_sort_key)
  then have "sorted_wrt (\<lambda>x y. ?key x \<le> ?key y) (sort_docs f ds)"
    by (simp add: sort_docs_def sorted_wrt_map)
  then have "sorted_wrt (\<lambda>x y. ?val x \<le> ?val y) (sort_docs f ds)"
    by (rule sorted_wrt_mono_rel [rotated]) (auto simp: k sort_docs_set)
  then show ?thesis
    by (simp add: sorted_wrt_map)
qed

lemma sort_direction_values: "sort_direction req = 1 \<or> sort_direction req = - 1"
  by (simp add: sort_direction_def Let_def)

lemma map_exn_total:
  "\<forall>x \<in> set xs. f x = Inr (g x) \<Longrightarrow> map_exn f xs = Inr (map g xs)"
  by (induction xs) simp_all

lemma genre_row_of_group:
  "genre_row [(''_id'', k), (''conteo'', v)] = Inr (VDict [(''nombre'', k), (''conteo'', v)])"
  by (simp add: genre_row_def getitem_def)

lemma director_row_of_group:
  "director_row [(''_id'', k), (''ingresos_totales'', v)] =
     Inr (VDict [(''director'', k), (''ingresos_totales'', v)])"
  by (simp add: director_row_def getitem_def)

lemma run_top_genres:
  "run_pipeline lib (top_genres_pipeline l dir) db =
     run_pipeline lib [Sort ''conteo'' dir, Limit l]
       (group_docs (VStr ''$genres.name'') [(''conteo'', Sum_of (VInt 1))]
          (concat (map (unwind_doc ''genres'') db)))"
  by (simp add: top_genres_pipeline_def)

lemma run_top_directors:
  "run_pipeline lib (top_directors_pipeline l dir) db =
     run_pipeline lib [Sort ''ingresos_totales'' dir, Limit l]
       (group_docs (VStr ''$crew.name'') [(''ingresos_totales'', Sum_of (VStr ''$revenue''))]
          (filter (query_holds lib [(''crew.job'', Eq (VStr ''Director''))])
             (concat (map (unwind_doc ''crew'') db))))"
  by (simp add: top_directors_pipeline_def)

text \<open>
  What \<open>$sort\<close> followed by \<open>$limit\<close> returns on the rows of a \<open>$group\<close> with one sum:
  a selection of these rows, as many as the limit allows, in the order of the sums.
\<close>

lemma run_sort_limit:
  assumes fp: "field_path f = [f]"
    and fid: "f \<noteq> ''_id''"
    and rows: "\<forall>d \<in> set ds. \<exists>k c. d = [(''_id'', k), (f, VInt c)]"
    and l: "1 \<le> l"
    and dir: "dir = 1 \<or> dir = - 1"
  shows "\<exists>out. run_pipeline lib [Sort f dir, Limit l] ds = Inr out \<and>
           set out \<subseteq> set ds \<and>
           length out = min (nat l) (length ds) \<and>
           (distinct ds \<longrightarrow> distinct out) \<and>
           (if dir = 1
            then sorted_wrt (\<le>) (map (\<lambda>d. the (int_field f (VDict d))) out)
            else sorted_wrt (\<ge>) (map (\<lambda>d. the (int_field f (VDict d))) out))"
proof -
  let ?val = "\<lambda>d. the (int_field f (VDict d))"
  have ints: "\<forall>d \<in> set ds. \<exists>c. map_of d f = Some (VInt c)"
  proof
    fix d assume "d \<in> set ds"
    then obtain k c where "d = [(''_id'', k), (f, VInt c)]"
      using rows by blast
    then show "\<exists>c. map_of d f = Some (VInt c)"
      using fid by auto
  qed
  have up: "sorted_wrt (\<le>) (map ?val (sort_docs f ds))"
    by (rule sorted_int_rows [OF fp ints])
  show ?thesis
  proof (cases "dir = 1")
    case True
    let ?out = "take (nat l) (sort_docs f ds)"
    have r: "run_pipeline lib [Sort f dir, Limit l] ds = Inr ?out"
      using True l by simp
    have s: "set ?out \<subseteq> set ds"
      using set_take_subset [of "nat l" "sort_docs f ds"] by (simp add: sort_docs_set)
    have n: "length ?out = min (nat l) (length ds)"
      by (simp add: sort_docs_length min.commute)
    have di: "distinct ds \<longrightarrow> distinct ?out"
      by (simp add: sort_docs_distinct)
    have "sorted_wrt (\<le>) (take (nat l) (map ?val (sort_docs f ds)))"
      using up by (rule sorted_wrt_take)
    then have o: "sorted_wrt (\<le>) (map ?val ?out)"
      by (simp only: take_map)
    show ?thesis
      using r s n di o True by (intro exI [of _ ?out]) simp
  next
    case False
    then have d: "dir = - 1"
      using dir by simp
    let ?out = "take (nat l) (rev (sort_docs f ds))"
    have r: "run_pipeline lib [Sort f dir, Limit l] ds = Inr ?out"
      using d l by simp
    have s: "set ?out \<subseteq> set ds"
      using set_take_subset [of "nat l" "rev (sort_docs f ds)"] by (simp add: sort_docs_set)
    have n: "length ?out = min (nat l) (length ds)"
      by (simp add: sort_docs_length min.commute)
    have di: "distinct ds \<longrightarrow> distinct ?out"
      by (simp add: sort_docs_distinct)
    have "sorted_wrt (\<ge>) (rev (map ?val (sort_docs f ds)))"
      using up by (simp add: sorted_wrt_rev)
    then have "sorted_wrt (\<ge>) (take (nat l) (rev (map ?val (sort_docs f ds))))"
      by (rule sorted_wrt_take)
    then have o: "sorted_wrt (\<ge>) (map ?val ?out)"
      by (simp only: take_map rev_map)
    show ?thesis
      using r s n di o False by (intro exI [of _ ?out]) simp
  qed
qed

lemma those_map_Some: "those (map Some xs) = Some xs"
  by (induction xs) simp_all

lemma int_field_formatted:
  assumes fid: "f \<noteq> ''_id''" and gf: "g \<noteq> f"
  shows "int_field f (VDict [(g, the (map_of [(''_id'', k), (f, VInt c)] ''_id'')),
                             (f, the (map_of [(''_id'', k), (f, VInt c)] f))])
         = Some (the (int_field f (VDict [(''_id'', k), (f, VInt c)])))"
  using fid gf by simp

lemma int_fields_formatted:
  assumes rows: "\<forall>d \<in> set out. \<exists>k c. d = [(''_id'', k), (f, VInt c)]"
    and fid: "f \<noteq> ''_id''" and gf: "g \<noteq> f"
  shows "map (int_field f)
           (map (\<lambda>d. VDict [(g, the (map_of d ''_id'')), (f, the (map_of d f))]) out)
         = map Some (map (\<lambda>d. the (int_field f (VDict d))) out)"
  using rows
proof (induction out)
  case Nil
  show ?case by (simp only: list.map)
next
  case (Cons d out)
  from Cons.prems obtain k c where d: "d = [(''_id'', k), (f, VInt c)]"
    by (meson list.set_intros(1))
  from Cons.prems have "\<forall>d \<in> set out. \<exists>k c. d = [(''_id'', k), (f, VInt c)]"
    by (meson list.set_intros(2))
  then have ih: "map (int_field f)
           (map (\<lambda>d. VDict [(g, the (map_of d ''_id'')), (f, the (map_of d f))]) out)
         = map Some (map (\<lambda>d. the (int_field f (VDict d))) out)"
    by (rule Cons.IH)
  show ?case
    unfolding list.map ih d
    by (simp only: int_field_formatted [OF fid gf])
qed

lemma int_column_rows:
  assumes rows: "\<forall>d \<in> set out. \<exists>k c. d = [(''_id'', k), (f, VInt c)]"
    and fid: "f \<noteq> ''_id''" and gf: "g \<noteq> f"
  shows "int_column f
           (VList (map (\<lambda>d. VDict [(g, the (map_of d ''_id'')), (f, the (map_of d f))]) out))
         = Some (map (\<lambda>d. the (int_field f (VDict d))) out)"
  by (simp only: int_column.simps int_fields_formatted [OF rows fid gf] those_map_Some)

lemma genre_rows_formatted:
  assumes "\<forall>d \<in> set out. \<exists>k c. d = [(''_id'', k), (''conteo'', VInt c)]"
  shows "map_exn genre_row out =
     Inr (map (\<lambda>d. VDict [(''nombre'', the (map_of d ''_id'')),
                           (''conteo'', the (map_of d ''conteo''))]) out)"
proof (rule map_exn_total, rule ballI)
  fix d assume "d \<in> set out"
  then obtain k c where "d = [(''_id'', k), (''conteo'', VInt c)]"
    using assms by blast
  then show "genre_row d = Inr (VDict [(''nombre'', the (map_of d ''_id'')),
                           (''conteo'', the (map_of d ''conteo''))])"
    by (simp add: genre_row_of_group)
qed

lemma director_rows_formatted:
  assumes "\<forall>d \<in> set out. \<exists>k c. d = [(''_id'', k), (''ingresos_totales'', VInt c)]"
  shows "map_exn director_row out =
     Inr (map (\<lambda>d. VDict [(''director'', the (map_of d ''_id'')),
                           (''ingresos_totales'', the (map_of d ''ingresos_totales''))]) out)"
proof (rule map_exn_total, rule ballI)
  fix d assume "d \<in> set out"
  then obtain k c where "d = [(''_id'', k), (''ingresos_totales'', VInt c)]"
    using assms by blast
  then show "director_row d = Inr (VDict [(''director'', the (map_of d ''_id'')),
                           (''ingresos_totales'', the (map_of d ''ingresos_totales''))])"
    by (simp add: director_row_of_group)
qed

lemma top_genres_response:
  "\<exists>out. int_column ''conteo'' (body (fst (get_top_genres (mongo lib) req db)))
            = Some (map (\<lambda>d. the (int_field ''conteo'' (VDict d))) out) \<and>
         status (fst (get_top_genres (mongo lib) req db)) = 200 \<and>
         (if sort_direction req = 1
          then sorted_wrt (\<le>) (map (\<lambda>d. the (int_field ''conteo'' (VDict d))) out)
          else sorted_wrt (\<ge>) (map (\<lambda>d. the (int_field ''conteo'' (VDict d))) out))"
proof -
  let ?ds = "group_docs (VStr ''$genres.name'') [(''conteo'', Sum_of (VInt 1))]
          (concat (map (unwind_doc ''genres'') db))"
  have rows: "\<forall>d \<in> set ?ds. \<exists>k c. d = [(''_id'', k), (''conteo'', VInt c)]"
    using group_docs_sum_row by blast
  have fid: "''conteo'' \<noteq> ''_id''" by simp
  obtain out where r: "run_pipeline lib [Sort ''conteo'' (sort_direction req),
                         Limit (genres_limit req)] ?ds = Inr out"
    and sub: "set out \<subseteq> set ?ds"
    and ord: "if sort_direction req = 1
          then sorted_wrt (\<le>) (map (\<lambda>d. the (int_field ''conteo'' (VDict d))) out)
          else sorted_wrt (\<ge>) (map (\<lambda>d. the (int_field ''conteo'' (VDict d))) out)"
    using run_sort_limit [OF field_path_conteo fid rows, of "genres_limit req" "sort_direction req"]
      genres_limit_range [of req] sort_direction_values [of req]
    by blast
  have orows: "\<forall>d \<in> set out. \<exists>k c. d = [(''_id'', k), (''conteo'', VInt c)]"
    using rows sub by blast
  have agg: "aggregate (mongo lib) (top_genres_pipeline (genres_limit req) (sort_direction req)) db
               = (Inr out, db)"
    by (simp only: mongo_def store.simps run_top_genres r)
  have resp: "fst (get_top_genres (mongo lib) req db) =
     jsonify (VList (map (\<lambda>d. VDict [(''nombre'', the (map_of d ''_id'')),
                           (''conteo'', the (map_of d ''conteo''))]) out))"
    by (simp add: get_top_genres_def get_top_genres_try_def Let_def agg
        genre_rows_formatted [OF orows] except_500_def)
  have gf: "''nombre'' \<noteq> ''conteo''" by simp
  show ?thesis
    using ord int_column_rows [OF orows fid gf]
    by (intro exI [of _ out]) (simp add: resp jsonify_def)
qed

lemma top_directors_response:
  "\<exists>out. int_column ''ingresos_totales'' (body (fst (get_top_directors_revenue (mongo lib) req db)))
            = Some (map (\<lambda>d. the (int_field ''ingresos_totales'' (VDict d))) out) \<and>
         status (fst (get_top_directors_revenue (mongo lib) req db)) = 200 \<and>
         (if sort_direction req = 1
          then sorted_wrt (\<le>) (map (\<lambda>d. the (int_field ''ingresos_totales'' (VDict d))) out)
          else sorted_wrt (\<ge>) (map (\<lambda>d. the (int_field ''ingresos_totales'' (VDict d))) out))"
proof -
  let ?ds = "group_docs (VStr ''$crew.name'') [(''ingresos_totales'', Sum_of (VStr ''$revenue''))]
          (filter (query_holds lib [(''crew.job'', Eq (VStr ''Director''))])
             (concat (map (unwind_doc ''crew'') db)))"
  have rows: "\<forall>d \<in> set ?ds. \<exists>k c. d = [(''_id'', k), (''ingresos_totales'', VInt c)]"
    using group_docs_sum_row by blast
  have fid: "''ingresos_totales'' \<noteq> ''_id''" by simp
  obtain out where r: "run_pipeline lib [Sort ''ingresos_totales'' (sort_direction req),
                         Limit (directors_limit req)] ?ds = Inr out"
    and sub: "set out \<subseteq> set ?ds"
    and ord: "if sort_direction req = 1
          then sorted_wrt (\<le>) (map (\<lambda>d. the (int_field ''ingresos_totales'' (VDict d))) out)
          else sorted_wrt (\<ge>) (map (\<lambda>d. the (int_field ''ingresos_totales'' (VDict d))) out)"
    using run_sort_limit [OF field_path_ingresos fid rows, of "directors_limit req"
        "sort_direction req"]
      directors_limit_range [of req] sort_direction_values [of req]
    by blast
  have orows: "\<forall>d \<in> set out. \<exists>k c. d = [(''_id'', k), (''ingresos_totales'', VInt c)]"
    using rows sub by blast
  have agg: "aggregate (mongo lib) (top_directors_pipeline (directors_limit req) (sort_direction req)) db
               = (Inr out, db)"
    by (simp only: mongo_def store.simps run_top_directors r)
  have resp: "fst (get_top_directors_revenue (mongo lib) req db) =
     jsonify (VList (map (\<lambda>d. VDict [(''director'', the (map_of d ''_id'')),
                           (''ingresos_totales'', the (map_of d ''ingresos_totales''))]) out))"
    by (simp add: get_top_directors_revenue_def get_top_directors_revenue_try_def Let_def agg
        director_rows_formatted [OF orows] except_500_def)
  have gf: "''director'' \<noteq> ''ingresos_totales''" by simp
  show ?thesis
    using ord int_column_rows [OF orows fid gf]
    by (intro exI [of _ out]) (simp add: resp jsonify_def)
qed

text \<open>
  C1, as stated: every \<open>sort\<close> value other than \<open>asc\<close>, a garbage string such as
  \<open>xyz\<close> included, yields a non-increasing sequence. On a collection with two
  \<open>Drama\<close> movies and one \<open>Comedy\<close> movie, \<open>top_generos?sort=xyz\<close> returns the counts
  1, 2: the string is not \<open>desc\<close>, so the direction is ascending.
\<close>

theorem garbage_sort_is_ascending:
  "int_column ''conteo''
     (body (fst (get_top_genres (mongo no_library) \<lparr>args = [(''sort'', ''xyz'')]\<rparr>
        [movie_doc \<lparr>genres = [''Drama''], crew = [], revenue = 100\<rparr>,
         movie_doc \<lparr>genres = [''Drama'', ''Comedy''], crew = [], revenue = 50\<rparr>])))
     = Some [1, 2] \<and>
   \<not> non_increasing [1, 2]"
  by code_simp

text \<open>
  C1, amended. For \<open>top_generos\<close> and \<open>top_directores_ingresos\<close>, on every collection
  and for every request, the response is 200 and its rows carry an integer in the sorted
  field (\<open>conteo\<close>, \<open>ingresos_totales\<close>). The sequence of these integers is
  non-increasing when \<open>sort\<close> is the exact string \<open>desc\<close> or is omitted, and
  non-decreasing for every other value of \<open>sort\<close>: \<open>asc\<close>, and also any other string
  such as \<open>xyz\<close>.
\<close>

theorem report_order:
  "(\<exists>xs. status (fst (get_top_genres (mongo lib) req db)) = 200 \<and>
         int_column ''conteo'' (body (fst (get_top_genres (mongo lib) req db))) = Some xs \<and>
         (if map_of (args req) ''sort'' = None \<or> map_of (args req) ''sort'' = Some ''desc''
          then non_increasing xs else non_decreasing xs)) \<and>
   (\<exists>ys. status (fst (get_top_directors_revenue (mongo lib) req db)) = 200 \<and>
         int_column ''ingresos_totales'' (body (fst (get_top_directors_revenue (mongo lib) req db)))
           = Some ys \<and>
         (if map_of (args req) ''sort'' = None \<or> map_of (args req) ''sort'' = Some ''desc''
          then non_increasing ys else non_decreasing ys))"
proof (rule conjI)
  have dir: "(sort_direction req = 1) =
      (\<not> (map_of (args req) ''sort'' = None \<or> map_of (args req) ''sort'' = Some ''desc''))"
    by (simp add: sort_direction_cases split: option.splits)
  obtain out where
    c: "int_column ''conteo'' (body (fst (get_top_genres (mongo lib) req db)))
            = Some (map (\<lambda>d. the (int_field ''conteo'' (VDict d))) out)"
    and s: "status (fst (get_top_genres (mongo lib) req db)) = 200"
    and o: "if sort_direction req = 1
          then sorted_wrt (\<le>) (map (\<lambda>d. the (int_field ''conteo'' (VDict d))) out)
          else sorted_wrt (\<ge>) (map (\<lambda>d. the (int_field ''conteo'' (VDict d))) out)"
    using top_genres_response [of lib req db] by blast
  have "if map_of (args req) ''sort'' = None \<or> map_of (args req) ''sort'' = Some ''desc''
        then non_increasing (map (\<lambda>d. the (int_field ''conteo'' (VDict d))) out)
        else non_decreasing (map (\<lambda>d. the (int_field ''conteo'' (VDict d))) out)"
    using o unfolding dir non_increasing_def non_decreasing_def
    by (auto split: if_splits)
  then show "\<exists>xs. status (fst (get_top_genres (mongo lib) req db)) = 200 \<and>
         int_column ''conteo'' (body (fst (get_top_genres (mongo lib) req db))) = Some xs \<and>
         (if map_of (args req) ''sort'' = None \<or> map_of (args req) ''sort'' = Some ''desc''
          then non_increasing xs else non_decreasing xs)"
    using c s by blast
  obtain out' where
    c': "int_column ''ingresos_totales'' (body (fst (get_top_directors_revenue (mongo lib) req db)))
            = Some (map (\<lambda>d. the (int_field ''ingresos_totales'' (VDict d))) out')"
    and s': "status (fst (get_top_directors_revenue (mongo lib) req db)) = 200"
    and o': "if sort_direction req = 1
          then sorted_wrt (\<le>) (map (\<lambda>d. the (int_field ''ingresos_totales'' (VDict d))) out')
          else sorted_wrt (\<ge>) (map (\<lambda>d. the (int_field ''ingresos_totales'' (VDict d))) out')"
    using top_directors_response [of lib req db] by blast
  have "if map_of (args req) ''sort'' = None \<or> map_of (args req) ''sort'' = Some ''desc''
        then non_increasing (map (\<lambda>d. the (int_field ''ingresos_totales'' (VDict d))) out')
        else non_decreasing (map (\<lambda>d. the (int_field ''ingresos_totales'' (VDict d))) out')"
    using o' unfolding dir non_increasing_def non_decreasing_def
    by (auto split: if_splits)
  then show "\<exists>ys. status (fst (get_top_directors_revenue (mongo lib) req db)) = 200 \<and>
         int_column ''ingresos_totales'' (body (fst (get_top_directors_revenue (mongo lib) req db)))
           = Some ys \<and>
         (if map_of (args req) ''sort'' = None \<or> map_of (args req) ''sort'' = Some ''desc''
          then non_increasing ys else non_decreasing ys)"
    using c' s' by blast
qed

theorem report_order_witness:
  "int_column ''conteo''
     (body (fst (get_top_genres (mongo no_library) \<lparr>args = [(''sort'', ''asc'')]\<rparr>
        [movie_doc \<lparr>genres = [''Drama''], crew = [], revenue = 100\<rparr>,
         movie_doc \<lparr>genres = [''Drama'', ''Comedy''], crew = [], revenue = 50\<rparr>])))
     = Some [1, 2] \<and>
   non_decreasing [1, 2] \<and>
   int_column ''conteo''
     (body (fst (get_top_genres (mongo no_library) \<lparr>args = []\<rparr>
        [movie_doc \<lparr>genres = [''Drama''], crew = [], revenue = 100\<rparr>,
         movie_doc \<lparr>genres = [''Drama'', ''Comedy''], crew = [], revenue = 50\<rparr>])))
     = Some [2, 1] \<and>
   non_increasing [2, 1]"
proof -
  have a: "int_column ''conteo''
     (body (fst (get_top_genres (mongo no_library) \<lparr>args = [(''sort'', ''asc'')]\<rparr>
        [movie_doc \<lparr>genres = [''Drama''], crew = [], revenue = 100\<rparr>,
         movie_doc \<lparr>genres = [''Drama'', ''Comedy''], crew = [], revenue = 50\<rparr>])))
     = Some [1, 2]"
    by code_simp
  have b: "int_column ''conteo''
     (body (fst (get_top_genres (mongo no_library) \<lparr>args = []\<rparr>
        [movie_doc \<lparr>genres = [''Drama''], crew = [], revenue = 100\<rparr>,
         movie_doc \<lparr>genres = [''Drama'', ''Comedy''], crew = [], revenue = 50\<rparr>])))
     = Some [2, 1]"
    by code_simp
  show ?thesis
    using a b
      report_order [of no_library "\<lparr>args = [(''sort'', ''asc'')]\<rparr>"
        "[movie_doc \<lparr>genres = [''Drama''], crew = [], revenue = 100\<rparr>,
          movie_doc \<lparr>genres = [''Drama'', ''Comedy''], crew = [], revenue = 50\<rparr>]"]
      report_order [of no_library "\<lparr>args = []\<rparr>"
        "[movie_doc \<lparr>genres = [''Drama''], crew = [], revenue = 100\<rparr>,
          movie_doc \<lparr>genres = [''Drama'', ''Comedy''], crew = [], revenue = 50\<rparr>]"]
    by simp
qed

section \<open>Revenue per directing credit\<close>

lemma credit_row_eq:
  "credit_row m c =
     [(''genres'', VList (map (\<lambda>g. VDict [(''name'', VStr g)]) (genres m))),
      (''crew'', VDict [(''name'', VStr (name c)), (''job'', VStr (job c))]),
      (''revenue'', VInt (revenue m))]"
  by (simp add: credit_row_def movie_doc_def dict_set_def credit_doc_def)

lemma unwind_movie: "unwind_doc ''crew'' (movie_doc m) = map (credit_row m) (crew m)"
proof -
  have "map_of (movie_doc m) ''crew'' = Some (VList (map credit_doc (crew m)))"
    by (simp add: movie_doc_def)
  then show ?thesis
    by (simp add: unwind_doc_def credit_row_def o_def)
qed

lemma field_path_crew_job: "field_path ''crew.job'' = [''crew'', ''job'']"
  by (simp add: field_path_def)

lemma field_path_crew_name: "field_path ''crew.name'' = [''crew'', ''name'']"
  by (simp add: field_path_def)

lemma field_path_revenue: "field_path ''revenue'' = [''revenue'']"
  by (simp add: field_path_def)

lemma credit_row_job: "field_val ''crew.job'' (credit_row m c) = Some (VStr (job c))"
  by (simp add: field_val_def field_path_crew_job credit_row_eq)

lemma credit_row_holds:
  "query_holds lib [(''crew.job'', Eq (VStr ''Director''))] (credit_row m c) = (job c = ''Director'')"
  by (simp add: query_holds_def credit_row_job)

lemma credit_row_key: "eval_expr (VStr ''$crew.name'') (credit_row m c) = VStr (name c)"
  by (simp add: field_val_def field_path_crew_name credit_row_eq)

lemma credit_row_revenue: "eval_expr (VStr ''$revenue'') (credit_row m c) = VInt (revenue m)"
  by (simp add: field_val_def field_path_revenue credit_row_eq)

lemma unwind_movies:
  "concat (map (unwind_doc ''crew'') (map movie_doc ms)) =
     concat (map (\<lambda>m. map (credit_row m) (crew m)) ms)"
  by (simp add: o_def unwind_movie)

lemma matched_rows:
  "filter (query_holds lib [(''crew.job'', Eq (VStr ''Director''))])
     (concat (map (\<lambda>m. map (credit_row m) (crew m)) ms)) =
   concat (map (\<lambda>m. map (credit_row m) (filter (\<lambda>c. job c = ''Director'') (crew m))) ms)"
proof (induction ms)
  case Nil
  show ?case by simp
next
  case (Cons m ms)
  have "filter (query_holds lib [(''crew.job'', Eq (VStr ''Director''))]) (map (credit_row m) cs)
        = map (credit_row m) (filter (\<lambda>c. job c = ''Director'') cs)" for cs
    by (induction cs) (simp_all add: credit_row_holds)
  with Cons show ?case by simp
qed

lemma matched_rows_kv:
  "map (\<lambda>d. (eval_expr (VStr ''$crew.name'') d, num_val (eval_expr (VStr ''$revenue'') d)))
     (concat (map (\<lambda>m. map (credit_row m) (filter (\<lambda>c. job c = ''Director'') (crew m))) ms))
   = map (\<lambda>(n, r). (VStr n, r)) (directing_credits ms)"
  by (induction ms)
    (simp_all add: directing_credits_def credit_row_key credit_row_revenue o_def
      del: eval_expr.simps)


lemma sum_filter_kv:
  "sum_list (map v (filter (\<lambda>d. key d = k) ds)) =
   sum_list (map snd (filter (\<lambda>p. fst p = k) (map (\<lambda>d. (key d, v d)) ds)))"
  by (induction ds) simp_all

lemma group_docs_kv:
  "group_docs e [(f, Sum_of a)] ds =
     map (\<lambda>k. [(''_id'', k),
               (f, VInt (sum_list (map snd (filter (\<lambda>p. fst p = k)
                  (map (\<lambda>d. (eval_expr e d, num_val (eval_expr a d))) ds)))))])
         (rev (remdups (rev (map fst
            (map (\<lambda>d. (eval_expr e d, num_val (eval_expr a d))) ds)))))"
proof -
  have "sum_list (map (\<lambda>d. num_val (eval_expr a d)) (filter (\<lambda>d. eval_expr e d = k) ds)) =
     sum_list (map snd (filter (\<lambda>p. fst p = k)
        (map (\<lambda>d. (eval_expr e d, num_val (eval_expr a d))) ds)))" for k
    by (rule sum_filter_kv)
  then show ?thesis
    by (simp add: group_docs_def group_keys_def o_def del: eval_expr.simps)
qed

lemma remdups_map_inj: "inj f \<Longrightarrow> remdups (map f xs) = map f (remdups xs)"
  by (induction xs) (auto simp: inj_def)

lemma first_occurrences_map:
  "inj f \<Longrightarrow> rev (remdups (rev (map f xs))) = map f (rev (remdups (rev xs)))"
  using remdups_map_inj [of f "rev xs"] by (simp add: rev_map)

lemma credited_sum:
  "sum_list (map snd (filter (\<lambda>p. fst p = VStr d) (map (\<lambda>(n, r). (VStr n, r)) dc))) =
   sum_list (map snd (filter (\<lambda>(n, r). n = d) dc))"
  by (induction dc) auto

lemma directors_grouped:
  "group_docs (VStr ''$crew.name'') [(''ingresos_totales'', Sum_of (VStr ''$revenue''))]
     (filter (query_holds lib [(''crew.job'', Eq (VStr ''Director''))])
        (concat (map (unwind_doc ''crew'') (map movie_doc ms)))) =
   map (\<lambda>d. [(''_id'', VStr d), (''ingresos_totales'', VInt (credited_revenue ms d))])
     (director_names ms)"
proof -
  have inj: "inj VStr"
    by (simp add: inj_def)
  have keys: "map fst (map (\<lambda>(n, r). (VStr n, r)) (directing_credits ms)) =
      map VStr (map fst (directing_credits ms))"
    by (simp add: o_def case_prod_unfold)
  show ?thesis
    unfolding unwind_movies matched_rows group_docs_kv matched_rows_kv keys
      first_occurrences_map [OF inj]
    by (simp add: o_def credited_sum credited_revenue_def director_names_def)
qed

lemma selection_of_map:
  "set out \<subseteq> set (map g xs) \<Longrightarrow> \<exists>ys. out = map g ys \<and> set ys \<subseteq> set xs"
proof (induction out)
  case Nil
  show ?case by simp
next
  case (Cons y out)
  then obtain ys where ys: "out = map g ys" "set ys \<subseteq> set xs"
    by auto
  from Cons.prems obtain x where "x \<in> set xs" "y = g x"
    by auto
  with ys have "y # out = map g (x # ys) \<and> set (x # ys) \<subseteq> set xs"
    by simp
  then show ?case by (rule exI [of _ "x # ys"])
qed

lemma director_names_distinct: "distinct (director_names ms)"
  by (simp add: director_names_def)

lemma credits_names:
  "fst ` set (directing_credits ms) =
     (\<Union>m \<in> set ms. name ` {c \<in> set (crew m). job c = ''Director''})"
  by (simp add: directing_credits_def image_UN image_image)

lemma director_names_set:
  "set (director_names ms) =
     (\<Union>m \<in> set ms. name ` {c \<in> set (crew m). job c = ''Director''})"
  by (simp add: director_names_def credits_names)

lemma credited_in_movie:
  "sum_list (map snd (filter (\<lambda>(n, r). n = d) (map (\<lambda>c. (name c, r)) cs))) =
   r * int (length (filter (\<lambda>c. name c = d) cs))"
  by (induction cs) (simp_all add: algebra_simps)

lemma credited_revenue_per_movie:
  "credited_revenue ms d =
     sum_list (map (\<lambda>m. revenue m *
        int (length (filter (\<lambda>c. job c = ''Director'' \<and> name c = d) (crew m)))) ms)"
proof (induction ms)
  case Nil
  show ?case by (simp add: credited_revenue_def directing_credits_def)
next
  case (Cons m ms)
  have "filter (\<lambda>c. name c = d) (filter (\<lambda>c. job c = ''Director'') (crew m)) =
        filter (\<lambda>c. job c = ''Director'' \<and> name c = d) (crew m)"
    by (simp add: conj_commute)
  with Cons show ?case
    by (simp add: credited_revenue_def directing_credits_def credited_in_movie)
qed

lemma top_directors_rows:
  "\<exists>ds. fst (get_top_directors_revenue (mongo lib) req (map movie_doc ms)) =
           \<lparr>body = VList (map (\<lambda>d. VDict [(''director'', VStr d),
                 (''ingresos_totales'', VInt (credited_revenue ms d))]) ds),
            status = 200\<rparr> \<and>
         distinct ds \<and> set ds \<subseteq> set (director_names ms) \<and>
         length ds = min (nat (directors_limit req)) (length (director_names ms))"
proof -
  let ?G = "\<lambda>d. [(''_id'', VStr d), (''ingresos_totales'', VInt (credited_revenue ms d))]"
  let ?ds = "map ?G (director_names ms)"
  have rows: "\<forall>d \<in> set ?ds. \<exists>k c. d = [(''_id'', k), (''ingresos_totales'', VInt c)]"
    by auto
  have fid: "''ingresos_totales'' \<noteq> ''_id''" by simp
  have dist: "distinct ?ds"
    by (simp add: distinct_map director_names_distinct inj_on_def)
  obtain out where r: "run_pipeline lib [Sort ''ingresos_totales'' (sort_direction req),
                         Limit (directors_limit req)] ?ds = Inr out"
    and sub: "set out \<subseteq> set ?ds"
    and len: "length out = min (nat (directors_limit req)) (length ?ds)"
    and dout: "distinct out"
    using run_sort_limit [OF field_path_ingresos fid rows, of "directors_limit req"
        "sort_direction req"]
      directors_limit_range [of req] sort_direction_values [of req] dist
    by blast
  obtain ns where ns: "out = map ?G ns" and nsub: "set ns \<subseteq> set (director_names ms)"
    using selection_of_map [OF sub] by blast
  have dns: "distinct ns"
    using dout ns by (simp add: distinct_map)
  have lns: "length ns = min (nat (directors_limit req)) (length (director_names ms))"
    using len ns by simp
  have orows: "\<forall>d \<in> set out. \<exists>k c. d = [(''_id'', k), (''ingresos_totales'', VInt c)]"
    using rows sub by blast
  have agg: "aggregate (mongo lib) (top_directors_pipeline (directors_limit req) (sort_direction req))
               (map movie_doc ms) = (Inr out, map movie_doc ms)"
    by (simp only: mongo_def store.simps run_top_directors directors_grouped r)
  have fmt: "map (\<lambda>d. VDict [(''director'', the (map_of d ''_id'')),
                           (''ingresos_totales'', the (map_of d ''ingresos_totales''))]) out
        = map (\<lambda>d. VDict [(''director'', VStr d),
                 (''ingresos_totales'', VInt (credited_revenue ms d))]) ns"
    by (simp add: ns)
  have resp: "fst (get_top_directors_revenue (mongo lib) req (map movie_doc ms)) =
     jsonify (VList (map (\<lambda>d. VDict [(''director'', VStr d),
                 (''ingresos_totales'', VInt (credited_revenue ms d))]) ns))"
    by (simp add: get_top_directors_revenue_def get_top_directors_revenue_try_def Let_def agg
        director_rows_formatted [OF orows] except_500_def fmt)
  show ?thesis
    using dns nsub lns by (intro exI [of _ ns]) (simp add: resp jsonify_def)
qed

text \<open>
  C5. On a collection of movie documents, the rows of \<open>top_directores_ingresos\<close> are
  rows of distinct names that have a crew entry whose job is exactly \<open>Director\<close>
  (a crew entry with the job \<open>director\<close> or \<open>Co-Director\<close> gives no row and adds
  nothing), as many of them as the limit allows. The \<open>ingresos_totales\<close> of a name is
  the sum, over the movies, of the movie's full revenue once for every crew entry of
  that movie with that name and the job \<open>Director\<close>: two directing credits on one
  movie count its revenue twice.
\<close>

theorem directors_revenue_per_credit:
  "(\<exists>ds. fst (get_top_directors_revenue (mongo lib) req (map movie_doc ms)) =
           \<lparr>body = VList (map (\<lambda>d. VDict [(''director'', VStr d),
                 (''ingresos_totales'', VInt (credited_revenue ms d))]) ds),
            status = 200\<rparr> \<and>
         distinct ds \<and> set ds \<subseteq> set (director_names ms) \<and>
         length ds = min (nat (directors_limit req)) (length (director_names ms))) \<and>
   distinct (director_names ms) \<and>
   set (director_names ms) =
     (\<Union>m \<in> set ms. name ` {c \<in> set (crew m). job c = ''Director''}) \<and>
   credited_revenue ms d =
     sum_list (map (\<lambda>m. revenue m *
        int (length (filter (\<lambda>c. job c = ''Director'' \<and> name c = d) (crew m)))) ms)"
  using top_directors_rows [of lib req ms] director_names_distinct [of ms]
    director_names_set [of ms] credited_revenue_per_movie [of ms d]
  by (intro conjI)

theorem directors_revenue_per_credit_witness:
  "fst (get_top_directors_revenue (mongo no_library) \<lparr>args = []\<rparr>
     (map movie_doc
        [\<lparr>genres = [''Drama''],
          crew = [\<lparr>name = ''A'', job = ''Director''\<rparr>, \<lparr>name = ''C'', job = ''director''\<rparr>],
          revenue = 70\<rparr>,
         \<lparr>genres = [''Comedy''],
          crew = [\<lparr>name = ''B'', job = ''Director''\<rparr>, \<lparr>name = ''B'', job = ''Director''\<rparr>,
                  \<lparr>name = ''D'', job = ''Co-Director''\<rparr>],
          revenue = 50\<rparr>])) =
     \<lparr>body = VList [VDict [(''director'', VStr ''B''), (''ingresos_totales'', VInt 100)],
                     VDict [(''director'', VStr ''A''), (''ingresos_totales'', VInt 70)]],
      status = 200\<rparr> \<and>
   credited_revenue
        [\<lparr>genres = [''Drama''],
          crew = [\<lparr>name = ''A'', job = ''Director''\<rparr>, \<lparr>name = ''C'', job = ''director''\<rparr>],
          revenue = 70\<rparr>,
         \<lparr>genres = [''Comedy''],
          crew = [\<lparr>name = ''B'', job = ''Director''\<rparr>, \<lparr>name = ''B'', job = ''Director''\<rparr>,
                  \<lparr>name = ''D'', job = ''Co-Director''\<rparr>],
          revenue = 50\<rparr>] ''B'' = 50 * 2"
proof -
  have r: "fst (get_top_directors_revenue (mongo no_library) \<lparr>args = []\<rparr>
     (map movie_doc
        [\<lparr>genres = [''Drama''],
          crew = [\<lparr>name = ''A'', job = ''Director''\<rparr>, \<lparr>name = ''C'', job = ''director''\<rparr>],
          revenue = 70\<rparr>,
         \<lparr>genres = [''Comedy''],
          crew = [\<lparr>name = ''B'', job = ''Director''\<rparr>, \<lparr>name = ''B'', job = ''Director''\<rparr>,
                  \<lparr>name = ''D'', job = ''Co-Director''\<rparr>],
          revenue = 50\<rparr>])) =
     \<lparr>body = VList [VDict [(''director'', VStr ''B''), (''ingresos_totales'', VInt 100)],
                     VDict [(''director'', VStr ''A''), (''ingresos_totales'', VInt 70)]],
      status = 200\<rparr>"
    by code_simp
  have c: "credited_revenue
        [\<lparr>genres = [''Drama''],
          crew = [\<lparr>name = ''A'', job = ''Director''\<rparr>, \<lparr>name = ''C'', job = ''director''\<rparr>],
          revenue = 70\<rparr>,
         \<lparr>genres = [''Comedy''],
          crew = [\<lparr>name = ''B'', job = ''Director''\<rparr>, \<lparr>name = ''B'', job = ''Director''\<rparr>,
                  \<lparr>name = ''D'', job = ''Co-Director''\<rparr>],
          revenue = 50\<rparr>] ''B'' = 50 * 2"
    using directors_revenue_per_credit [where lib = no_library and req = "\<lparr>args = []\<rparr>"
        and d = "''B''" and ms =
        "[\<lparr>genres = [''Drama''],
          crew = [\<lparr>name = ''A'', job = ''Director''\<rparr>, \<lparr>name = ''C'', job = ''director''\<rparr>],
          revenue = 70\<rparr>,
         \<lparr>genres = [''Comedy''],
          crew = [\<lparr>name = ''B'', job = ''Director''\<rparr>, \<lparr>name = ''B'', job = ''Director''\<rparr>,
                  \<lparr>name = ''D'', job = ''Co-Director''\<rparr>],
          revenue = 50\<rparr>]"]
    by simp
  show ?thesis
    using r c by (rule conjI)
qed

section \<open>The search pattern\<close>








end
